theory Spec2Isabelle
  imports Main "HOL-Library.Word"
begin

section \<open>Overview\<close>

text \<open>
  The server is an Express application that keeps one headless browser and one page of
  it in two module-level variables and answers four HTTP operations: status, start,
  stop, and fetching a URL as Markdown. This theory models the pure helpers
  (\<^verbatim>\<open>sanitizeHtml\<close>, the image rule of the converter), the browser lifecycle
  (\<^verbatim>\<open>initBrowser\<close> and its \<^verbatim>\<open>disconnected\<close> handler) and the handlers that change
  the two variables. The repository holds the server file in two versions; the
  model follows the later one (a scratch directory per launch, 60 second timeouts, the
  joint readiness wait), which is the one the specification describes.

  The browser automation library, the URL parser of the runtime, the file system and
  the Markdown converter are outside the repository. Every call into them is recorded
  in a trace, and what the call answers (a value, or a thrown error) is a parameter of
  the model, so that every theorem holds for whatever they answer. A handler is a
  function from the session state to its result, the state it leaves and the trace;
  an \<^verbatim>\<open>await\<close> is a call whose answer is taken at once, except in the two sections
  on interleaving, where handlers are suspended and resumed at their \<^verbatim>\<open>await\<close>
  points. The waits of a fetch (the joint readiness wait and the fixed delays) record in
  the trace the time for which the handler is suspended.
\<close>

section \<open>Strings\<close>

text \<open>
  A JavaScript string is a sequence of UTF-16 code units. The regular expressions of
  \<^verbatim>\<open>sanitizeHtml\<close> carry no \<^verbatim>\<open>u\<close> flag, so they match single code units.
  \<open>ascii\<close> writes an ASCII literal of the source as code units.
\<close>

type_synonym jsstring = "16 word list"

definition ascii :: "string \<Rightarrow> jsstring" where
  "ascii s = map of_char s"

definition dquote :: jsstring where
  "dquote = [0x22]"

definition squote :: jsstring where
  "squote = [0x27]"

text \<open>
  \<^verbatim>\<open>v || ''\<close> for a value that is \<^verbatim>\<open>null\<close> or a string: \<^verbatim>\<open>null\<close> and the
  empty string are falsy.
\<close>

definition truthy :: "jsstring option \<Rightarrow> bool" where
  "truthy v = (case v of None \<Rightarrow> False | Some s \<Rightarrow> s \<noteq> [])"

definition or_empty :: "jsstring option \<Rightarrow> jsstring" where
  "or_empty v = (if truthy v then the v else [])"

section \<open>Markup sanitization\<close>

text \<open>
  \<^verbatim>\<open>html.replace(/\0/g, '')\<close> deletes every code unit 0; then
  a second global \<^verbatim>\<open>replace\<close> over the class of U+2028 and U+2029 turns each of them into
  one space (U+0020).
\<close>

definition strip_nul :: "jsstring \<Rightarrow> jsstring" where
  "strip_nul html = filter (\<lambda>c. c \<noteq> 0) html"

definition replace_separators :: "jsstring \<Rightarrow> jsstring" where
  "replace_separators html = map (\<lambda>c. if c = 0x2028 \<or> c = 0x2029 then 0x20 else c) html"

definition sanitizeHtml :: "jsstring \<Rightarrow> jsstring" where
  "sanitizeHtml html = replace_separators (strip_nul html)"

text \<open>
  The sanitization as the specification words it, one code unit at a time: a NUL
  is dropped, a line or paragraph separator becomes a single space, anything else stays.
\<close>

fun spec_sanitize :: "jsstring \<Rightarrow> jsstring" where
  "spec_sanitize [] = []"
| "spec_sanitize (c # cs) =
     (if c = 0 then spec_sanitize cs
      else if c = 0x2028 \<or> c = 0x2029 then 0x20 # spec_sanitize cs
      else c # spec_sanitize cs)"

section \<open>The image rule of the Markdown converter\<close>

text \<open>
  A DOM element as the rule sees it: its attributes. \<^verbatim>\<open>getAttribute\<close> gives
  \<^verbatim>\<open>null\<close> for an attribute the element does not have.
\<close>

record node =
  attrs :: "jsstring \<rightharpoonup> jsstring"

definition getAttribute :: "node \<Rightarrow> jsstring \<Rightarrow> jsstring option" where
  "getAttribute n name = attrs n name"

definition preserveImages :: "jsstring \<Rightarrow> node \<Rightarrow> jsstring" where
  "preserveImages content n =
     (let alt = or_empty (getAttribute n (ascii ''alt''));
          src = or_empty (getAttribute n (ascii ''src''));
          title = or_empty (getAttribute n (ascii ''title''))
      in if src \<noteq> []
         then ascii ''!['' @ alt @ ascii ''](''  @ src
              @ (if title \<noteq> [] then ascii '' '' @ dquote @ title @ dquote else [])
              @ ascii '')''
         else [])"

text \<open>
  The rendering as the specification words it: decided by whether the \<^verbatim>\<open>src\<close>
  attribute is present; \<^verbatim>\<open>alt\<close> and \<^verbatim>\<open>title\<close> default to the empty string, and
  (as the specification's example \<^verbatim>\<open>![x](a.png)\<close> shows) an empty title is left out.
\<close>

definition default_empty :: "jsstring option \<Rightarrow> jsstring" where
  "default_empty v = (case v of None \<Rightarrow> [] | Some s \<Rightarrow> s)"

definition image_markdown :: "jsstring \<Rightarrow> jsstring \<Rightarrow> jsstring \<Rightarrow> jsstring" where
  "image_markdown alt src title =
     ascii ''!['' @ alt @ ascii ''](''  @ src
     @ (if title = [] then [] else ascii '' '' @ dquote @ title @ dquote)
     @ ascii '')''"

definition spec_image :: "node \<Rightarrow> jsstring" where
  "spec_image n =
     (case attrs n (ascii ''src'') of
        None \<Rightarrow> []
      | Some src \<Rightarrow> image_markdown (default_empty (attrs n (ascii ''alt''))) src
                      (default_empty (attrs n (ascii ''title''))))"

definition img :: "(string \<times> string) list \<Rightarrow> node" where
  "img kvs = \<lparr>attrs = map_of (map (\<lambda>(k, v). (ascii k, ascii v)) kvs)\<rparr>"

section \<open>Session state, external calls and errors\<close>

text \<open>
  The two module-level variables \<^verbatim>\<open>browser\<close> and \<^verbatim>\<open>browserPage\<close>
  (\<^verbatim>\<open>null\<close> is \<open>None\<close>). Browser, page and element objects of the automation
  library are opaque; they are told apart by a number.
\<close>

type_synonym handle = nat
type_synonym page = nat
type_synonym element = nat

record session =
  browser :: "handle option"
  browserPage :: "page option"

definition absent :: session where
  "absent = \<lparr>browser = None, browserPage = None\<rparr>"

text \<open>A thrown JavaScript \<^verbatim>\<open>Error\<close>, with its message.\<close>

datatype error = Error (message: jsstring)

definition null_deref :: "string \<Rightarrow> error" where
  "null_deref m =
     Error (ascii ''Cannot read properties of null (reading '' @ squote @ ascii m @ squote
            @ ascii '')'')"

text \<open>
  What the server does to the outside world, in order: calls into the automation
  library, the file system and the converter, timers, and the \<^verbatim>\<open>console.warn\<close> and
  \<^verbatim>\<open>console.error\<close> lines (the informational \<^verbatim>\<open>console.log\<close> lines are not
  recorded). \<open>Waited t\<close> records that the handler stayed suspended for \<open>t\<close>
  milliseconds, at a timer or at a joint wait; the time the other calls take is not
  recorded.
\<close>

datatype wait = NetworkIdle page nat nat | DocumentComplete page | Delay int

datatype action =
    MkdirTemp
  | Launch
  | NewPage handle
  | OnDisconnected handle
  | SetViewport page nat nat
  | SetUserAgent page
  | EvaluateOnNewDocument page
  | ExistsTemp
  | RmTemp
  | Close handle
  | SetDefaultNavigationTimeout page nat
  | SetDefaultTimeout page nat
  | Goto page jsstring nat
  | AwaitAll "wait list"
  | Sleep nat
  | Waited nat
  | WaitForSelector page jsstring nat
  | IsPageLoaded page
  | Query page jsstring
  | OuterHTML page element
  | Content page
  | Turndown jsstring
  | Title page
  | ConsoleWarn jsstring
  | ConsoleError jsstring error

text \<open>
  A promise that is awaited together with others settles at some time (milliseconds
  after the joint wait began), fulfilled or rejected.
\<close>

datatype settled = Fulfilled nat | Rejected nat error

text \<open>
  The outcome of every external call the server makes during one operation. The URL
  parser of the runtime (\<^verbatim>\<open>new URL(u).toString()\<close>, \<open>None\<close> when the constructor
  throws), the automation library and the converter are not part of the repository;
  their answers are parameters. \<open>timer d\<close> is the time after which
  \<^verbatim>\<open>setTimeout(resolve, d)\<close> resolves.
\<close>

record env =
  new_URL :: "jsstring \<Rightarrow> jsstring option"
  fs_mkdirSync :: "error option"
  puppeteer_launch :: "error + handle"
  browser_newPage :: "handle \<Rightarrow> error + page"
  page_setViewport :: "page \<Rightarrow> error option"
  page_setUserAgent :: "page \<Rightarrow> error option"
  page_evaluateOnNewDocument :: "page \<Rightarrow> error option"
  fs_existsSync :: bool
  fs_rmSync :: "error option"
  browser_close :: "handle \<Rightarrow> error option"
  page_goto :: "page \<Rightarrow> jsstring \<Rightarrow> error option"
  page_waitForNetworkIdle :: "page \<Rightarrow> settled"
  page_documentComplete :: "page \<Rightarrow> settled"
  timer :: "int \<Rightarrow> nat"
  page_waitForSelector :: "page \<Rightarrow> jsstring \<Rightarrow> error option"
  page_isPageLoaded :: "page \<Rightarrow> error + bool"
  page_query :: "page \<Rightarrow> jsstring \<Rightarrow> error + element option"
  page_outerHTML :: "page \<Rightarrow> element \<Rightarrow> error + jsstring"
  page_content :: "page \<Rightarrow> error + jsstring"
  turndown :: "jsstring \<Rightarrow> error + jsstring"
  page_title :: "page \<Rightarrow> error + jsstring"

section \<open>Sequencing with exceptions, state and a trace\<close>

text \<open>
  A piece of the server run to completion from a session state: it returns or throws,
  leaves a session state (assignments made before a throw stay), and has performed a
  list of actions.
\<close>

type_synonym 'a io = "session \<Rightarrow> (error + 'a) \<times> session \<times> action list"

definition ret :: "'a \<Rightarrow> 'a io" where
  "ret x = (\<lambda>s. (Inr x, s, []))"

definition throw :: "error \<Rightarrow> 'a io" where
  "throw e = (\<lambda>s. (Inl e, s, []))"

definition bnd :: "'a io \<Rightarrow> ('a \<Rightarrow> 'b io) \<Rightarrow> 'b io" where
  "bnd m f = (\<lambda>s. case m s of
                (Inl e, s', t) \<Rightarrow> (Inl e, s', t)
              | (Inr x, s', t) \<Rightarrow> (case f x s' of (r, s'', t') \<Rightarrow> (r, s'', t @ t')))"

definition try_catch :: "'a io \<Rightarrow> (error \<Rightarrow> 'a io) \<Rightarrow> 'a io" where
  "try_catch m h = (\<lambda>s. case m s of
                (Inl e, s', t) \<Rightarrow> (case h e s' of (r, s'', t') \<Rightarrow> (r, s'', t @ t'))
              | (Inr x, s', t) \<Rightarrow> (Inr x, s', t))"

definition emit :: "action \<Rightarrow> unit io" where
  "emit a = (\<lambda>s. (Inr (), s, [a]))"

definition ext :: "action \<Rightarrow> error + 'a \<Rightarrow> 'a io" where
  "ext a r = (\<lambda>s. (r, s, [a]))"

definition opt :: "error option \<Rightarrow> error + unit" where
  "opt eo = (case eo of None \<Rightarrow> Inr () | Some e \<Rightarrow> Inl e)"

definition lift :: "error + 'a \<Rightarrow> 'a io" where
  "lift r = (\<lambda>s. (r, s, []))"

definition get_browser :: "handle option io" where
  "get_browser = (\<lambda>s. (Inr (browser s), s, []))"

definition get_browserPage :: "page option io" where
  "get_browserPage = (\<lambda>s. (Inr (browserPage s), s, []))"

definition set_browser :: "handle option \<Rightarrow> unit io" where
  "set_browser b = (\<lambda>s. (Inr (), s\<lparr>browser := b\<rparr>, []))"

definition set_browserPage :: "page option \<Rightarrow> unit io" where
  "set_browserPage p = (\<lambda>s. (Inr (), s\<lparr>browserPage := p\<rparr>, []))"

text \<open>
  A method call \<^verbatim>\<open>browser.m(...)\<close> or \<^verbatim>\<open>browserPage.m(...)\<close> reads the variable
  first; on \<^verbatim>\<open>null\<close> the runtime throws a TypeError.
\<close>

definition the_browser :: "string \<Rightarrow> handle io" where
  "the_browser m = (\<lambda>s. case browser s of
                      None \<Rightarrow> (Inl (null_deref m), s, [])
                    | Some h \<Rightarrow> (Inr h, s, []))"

definition the_page :: "string \<Rightarrow> page io" where
  "the_page m = (\<lambda>s. case browserPage s of
                   None \<Rightarrow> (Inl (null_deref m), s, [])
                 | Some p \<Rightarrow> (Inr p, s, []))"

definition result :: "(error + 'a) \<times> session \<times> action list \<Rightarrow> error + 'a" where
  "result r = fst r"

definition state_after :: "(error + 'a) \<times> session \<times> action list \<Rightarrow> session" where
  "state_after r = fst (snd r)"

definition trace :: "(error + 'a) \<times> session \<times> action list \<Rightarrow> action list" where
  "trace r = snd (snd r)"

subsection \<open>\<^verbatim>\<open>Promise.all\<close>\<close>

text \<open>
  \<^verbatim>\<open>Promise.all\<close> is fulfilled once every member is fulfilled (at the latest of
  their times) and is rejected as soon as one member is rejected, with that member's
  error; of two members rejected at the same time the earlier one in the list wins.
\<close>

fun first_rejection :: "settled list \<Rightarrow> (nat \<times> error) option" where
  "first_rejection [] = None"
| "first_rejection (Fulfilled t # ps) = first_rejection ps"
| "first_rejection (Rejected t e # ps) =
     (case first_rejection ps of
        None \<Rightarrow> Some (t, e)
      | Some (t', e') \<Rightarrow> if t' < t then Some (t', e') else Some (t, e))"

fun settle_time :: "settled \<Rightarrow> nat" where
  "settle_time (Fulfilled t) = t"
| "settle_time (Rejected t e) = t"

definition promise_all :: "settled list \<Rightarrow> settled" where
  "promise_all ps =
     (case first_rejection ps of
        Some (t, e) \<Rightarrow> Rejected t e
      | None \<Rightarrow> Fulfilled (foldr max (map settle_time ps) 0))"

text \<open>
  Awaiting a promise that settles at time \<open>t\<close> suspends the handler for that long; then
  the handler goes on, or the rejection is thrown. \<^verbatim>\<open>await new Promise(resolve =>
  setTimeout(resolve, n))\<close> is a wait for the timer.
\<close>

definition await :: "settled \<Rightarrow> unit io" where
  "await p =
     bnd (emit (Waited (settle_time p))) (\<lambda>_.
     case p of Fulfilled t \<Rightarrow> ret () | Rejected t e \<Rightarrow> throw e)"

definition sleep :: "env \<Rightarrow> nat \<Rightarrow> unit io" where
  "sleep env n =
     bnd (emit (Sleep n)) (\<lambda>_.
     await (Fulfilled (timer env (int n))))"

section \<open>Browser lifecycle\<close>

text \<open>
  The body of the \<^verbatim>\<open>try\<close> block of \<^verbatim>\<open>initBrowser\<close>: make the scratch directory,
  launch, open the default page, register the \<^verbatim>\<open>disconnected\<close> handler, configure the
  page.
\<close>

definition initBrowser_try :: "env \<Rightarrow> bool io" where
  "initBrowser_try env =
     bnd (ext MkdirTemp (opt (fs_mkdirSync env))) (\<lambda>_.
     bnd (ext Launch (puppeteer_launch env)) (\<lambda>h.
     bnd (set_browser (Some h)) (\<lambda>_.
     bnd (the_browser ''newPage'') (\<lambda>b.
     bnd (ext (NewPage b) (browser_newPage env b)) (\<lambda>p.
     bnd (set_browserPage (Some p)) (\<lambda>_.
     bnd (the_browser ''on'') (\<lambda>b.
     bnd (emit (OnDisconnected b)) (\<lambda>_.
     bnd (the_page ''setViewport'') (\<lambda>p.
     bnd (ext (SetViewport p 1920 1080) (opt (page_setViewport env p))) (\<lambda>_.
     bnd (the_page ''setUserAgent'') (\<lambda>p.
     bnd (ext (SetUserAgent p) (opt (page_setUserAgent env p))) (\<lambda>_.
     bnd (the_page ''evaluateOnNewDocument'') (\<lambda>p.
     bnd (ext (EvaluateOnNewDocument p) (opt (page_evaluateOnNewDocument env p))) (\<lambda>_.
     ret True))))))))))))))"

text \<open>The \<^verbatim>\<open>catch\<close> block of \<^verbatim>\<open>initBrowser\<close>: log, clear both variables, return false.\<close>

definition initBrowser_catch :: "error \<Rightarrow> bool io" where
  "initBrowser_catch e =
     bnd (emit (ConsoleError (ascii ''Error launching browser:'') e)) (\<lambda>_.
     bnd (emit (ConsoleError (ascii ''Error details:'') e)) (\<lambda>_.
     bnd (set_browser None) (\<lambda>_.
     bnd (set_browserPage None) (\<lambda>_.
     ret False))))"

definition initBrowser :: "env \<Rightarrow> bool io" where
  "initBrowser env = try_catch (initBrowser_try env) initBrowser_catch"

text \<open>
  The handler registered with \<^verbatim>\<open>browser.on('disconnected', ...)\<close>: remove the scratch
  directory if it exists (a failure is a warning), clear both variables, call
  \<^verbatim>\<open>initBrowser\<close> and drop what it returns.
\<close>

definition cleanup :: "env \<Rightarrow> unit io" where
  "cleanup env =
     try_catch
       (bnd (ext ExistsTemp (Inr (fs_existsSync env))) (\<lambda>exists.
        if exists then ext RmTemp (opt (fs_rmSync env)) else ret ()))
       (\<lambda>e. emit (ConsoleWarn (ascii ''Cleanup warning: '' @ message e)))"

definition on_disconnected :: "env \<Rightarrow> unit io" where
  "on_disconnected env =
     bnd (cleanup env) (\<lambda>_.
     bnd (set_browser None) (\<lambda>_.
     bnd (set_browserPage None) (\<lambda>_.
     bnd (initBrowser env) (\<lambda>_.
     ret ()))))"

section \<open>HTTP operations\<close>

text \<open>
  A response: the status code (\<^verbatim>\<open>res.json\<close> alone answers 200) and the fields of the
  JSON body.
\<close>

type_synonym json = "(string \<times> jsstring) list"

datatype response = Response (status_code: nat) (json_body: json)

text \<open>\<^verbatim>\<open>POST /api/start-browser\<close>\<close>

definition start_browser :: "env \<Rightarrow> response io" where
  "start_browser env =
     bnd get_browser (\<lambda>b.
     if b \<noteq> None then ret (Response 200 [(''status'', ascii ''Browser already running'')])
     else
       bnd (initBrowser env) (\<lambda>success.
       if success then ret (Response 200 [(''status'', ascii ''Browser started successfully'')])
       else ret (Response 500 [(''error'', ascii ''Failed to start browser'')])))"

text \<open>\<^verbatim>\<open>POST /api/stop-browser\<close>\<close>

definition stop_browser :: "env \<Rightarrow> response io" where
  "stop_browser env =
     bnd get_browser (\<lambda>b.
     if b = None then ret (Response 200 [(''status'', ascii ''Browser not running'')])
     else
       try_catch
         (bnd (the_browser ''close'') (\<lambda>h.
          bnd (ext (Close h) (opt (browser_close env h))) (\<lambda>_.
          bnd (set_browser None) (\<lambda>_.
          bnd (set_browserPage None) (\<lambda>_.
          ret (Response 200 [(''status'', ascii ''Browser stopped successfully'')]))))))
         (\<lambda>e. ret (Response 500
                 [(''error'', ascii ''Failed to stop browser: '' @ message e)])))"

text \<open>
  \<^verbatim>\<open>POST /api/get-markdown\<close>. The request body: \<^verbatim>\<open>url\<close> and \<^verbatim>\<open>selector\<close> are
  absent or strings, \<^verbatim>\<open>waitTime\<close> is absent or an integer.
\<close>

record request =
  url :: "jsstring option"
  waitTime :: "int option"
  selector :: "jsstring option"

definition sanitizeUrl :: "env \<Rightarrow> jsstring \<Rightarrow> error + jsstring" where
  "sanitizeUrl env u =
     (case new_URL env u of
        Some parsedUrl \<Rightarrow> Inr parsedUrl
      | None \<Rightarrow> Inl (Error (ascii ''Invalid URL format'')))"

text \<open>"Ensure browser is running": launch when \<^verbatim>\<open>browser\<close> is unset.\<close>

definition ensureLive :: "env \<Rightarrow> bool io" where
  "ensureLive env =
     bnd get_browser (\<lambda>b.
     if b = None then initBrowser env else ret True)"

definition ensure_page :: "env \<Rightarrow> unit io" where
  "ensure_page env =
     bnd get_browserPage (\<lambda>pg.
     if pg = None
     then bnd (the_browser ''newPage'') (\<lambda>h.
          bnd (ext (NewPage h) (browser_newPage env h)) (\<lambda>p.
          set_browserPage (Some p)))
     else ret ())"

definition navigate :: "env \<Rightarrow> jsstring \<Rightarrow> unit io" where
  "navigate env sanitizedUrl =
     bnd (the_page ''setDefaultNavigationTimeout'') (\<lambda>p.
     bnd (emit (SetDefaultNavigationTimeout p 60000)) (\<lambda>_.
     bnd (the_page ''setDefaultTimeout'') (\<lambda>p.
     bnd (emit (SetDefaultTimeout p 60000)) (\<lambda>_.
     bnd (the_page ''goto'') (\<lambda>p.
     ext (Goto p sanitizedUrl 60000) (opt (page_goto env p sanitizedUrl)))))))"

text \<open>
  The readiness wait: one \<^verbatim>\<open>Promise.all\<close> over the network-idle wait, the
  document-complete evaluation and a timer of \<^verbatim>\<open>waitTime\<close> milliseconds.
\<close>

definition readiness :: "env \<Rightarrow> page \<Rightarrow> int \<Rightarrow> settled" where
  "readiness env p w =
     promise_all [page_waitForNetworkIdle env p, page_documentComplete env p,
                  Fulfilled (timer env w)]"

definition wait_ready :: "env \<Rightarrow> int \<Rightarrow> unit io" where
  "wait_ready env w =
     bnd (the_page ''waitForNetworkIdle'') (\<lambda>p.
     bnd (emit (AwaitAll [NetworkIdle p 60000 5000, DocumentComplete p, Delay w])) (\<lambda>_.
     bnd (await (readiness env p w)) (\<lambda>_.
     sleep env 2000)))"

definition wait_selector :: "env \<Rightarrow> jsstring option \<Rightarrow> unit io" where
  "wait_selector env sel =
     (if truthy sel
      then try_catch
             (bnd (the_page ''waitForSelector'') (\<lambda>p.
              ext (WaitForSelector p (the sel) 10000)
                  (opt (page_waitForSelector env p (the sel)))))
             (\<lambda>e. emit (ConsoleWarn (ascii ''Selector '' @ dquote @ the sel @ dquote
                           @ ascii '' not found or not visible, continuing anyway'')))
      else ret ())"

definition check_loaded :: "env \<Rightarrow> unit io" where
  "check_loaded env =
     bnd (the_page ''evaluate'') (\<lambda>p.
     bnd (ext (IsPageLoaded p) (page_isPageLoaded env p)) (\<lambda>isPageLoaded.
     if \<not> isPageLoaded
     then bnd (emit (ConsoleWarn
                 (ascii ''Page may not be fully loaded, waiting additional time...''))) (\<lambda>_.
          sleep env 5000)
     else ret ()))"

definition full_page :: "env \<Rightarrow> jsstring io" where
  "full_page env =
     bnd (the_page ''content'') (\<lambda>p. ext (Content p) (page_content env p))"

definition get_html :: "env \<Rightarrow> jsstring option \<Rightarrow> jsstring io" where
  "get_html env sel =
     (if truthy sel
      then bnd (the_page ''$'') (\<lambda>p.
           bnd (ext (Query p (the sel)) (page_query env p (the sel))) (\<lambda>element.
           case element of
             Some el \<Rightarrow> bnd (the_page ''evaluate'') (\<lambda>p.
                        ext (OuterHTML p el) (page_outerHTML env p el))
           | None \<Rightarrow> full_page env))
      else full_page env)"

definition convert :: "env \<Rightarrow> jsstring \<Rightarrow> jsstring \<Rightarrow> response io" where
  "convert env sanitizedUrl html =
     (let sanitizedHtml = sanitizeHtml html in
      bnd (ext (Turndown sanitizedHtml) (turndown env sanitizedHtml)) (\<lambda>markdown.
      bnd (the_page ''title'') (\<lambda>p.
      bnd (ext (Title p) (page_title env p)) (\<lambda>title.
      ret (Response 200
             [(''url'', sanitizedUrl), (''markdown'', markdown), (''title'', title)])))))"

definition get_markdown_try :: "env \<Rightarrow> request \<Rightarrow> response io" where
  "get_markdown_try env req =
     (let w = (case waitTime req of None \<Rightarrow> 2000 | Some t \<Rightarrow> t) in
      if \<not> truthy (url req)
      then ret (Response 400 [(''error'', ascii ''URL is required'')])
      else
        bnd (lift (sanitizeUrl env (the (url req)))) (\<lambda>sanitizedUrl.
        bnd (ensureLive env) (\<lambda>success.
        if \<not> success
        then ret (Response 500 [(''error'', ascii ''Failed to start browser'')])
        else
          bnd (ensure_page env) (\<lambda>_.
          bnd (navigate env sanitizedUrl) (\<lambda>_.
          bnd (wait_ready env w) (\<lambda>_.
          bnd (wait_selector env (selector req)) (\<lambda>_.
          bnd (check_loaded env) (\<lambda>_.
          bnd (get_html env (selector req)) (\<lambda>html.
          convert env sanitizedUrl html)))))))))"

definition get_markdown_catch :: "error \<Rightarrow> response io" where
  "get_markdown_catch e =
     bnd (emit (ConsoleError (ascii ''Error fetching page:'') e)) (\<lambda>_.
     ret (Response 500
            [(''error'', ascii ''Failed to process URL''), (''message'', message e)]))"

definition get_markdown :: "env \<Rightarrow> request \<Rightarrow> response io" where
  "get_markdown env req = try_catch (get_markdown_try env req) get_markdown_catch"

text \<open>
  Operations run one after another, each to completion, each with the outcomes its
  external calls meet.
\<close>

datatype op = StartBrowser | StopBrowser | BrowserDisconnected | GetMarkdown request

definition perform :: "env \<Rightarrow> op \<Rightarrow> session \<Rightarrow> session" where
  "perform env o' s =
     (case o' of
        StartBrowser \<Rightarrow> state_after (start_browser env s)
      | StopBrowser \<Rightarrow> state_after (stop_browser env s)
      | BrowserDisconnected \<Rightarrow> state_after (on_disconnected env s)
      | GetMarkdown req \<Rightarrow> state_after (get_markdown env req s))"

fun run_ops :: "(env \<times> op) list \<Rightarrow> session \<Rightarrow> session" where
  "run_ops [] s = s"
| "run_ops ((env, o') # rest) s = run_ops rest (perform env o' s)"

text \<open>
  The session invariant: the page variable is set exactly when the browser variable is.
\<close>

definition session_inv :: "session \<Rightarrow> bool" where
  "session_inv s = ((browserPage s \<noteq> None) = (browser s \<noteq> None))"

text \<open>Calls of \<open>ensureLive\<close> made one after another, each run to completion.\<close>

fun ensureLive_seq :: "env list \<Rightarrow> bool list io" where
  "ensureLive_seq [] = ret []"
| "ensureLive_seq (env # envs) =
     bnd (ensureLive env) (\<lambda>b.
     bnd (ensureLive_seq envs) (\<lambda>bs.
     ret (b # bs)))"

text \<open>The markup-retrieving actions of a fetch.\<close>

fun is_extraction :: "action \<Rightarrow> bool" where
  "is_extraction (Query p sel) = True"
| "is_extraction (OuterHTML p el) = True"
| "is_extraction (Content p) = True"
| "is_extraction a = False"

fun is_navigation :: "action \<Rightarrow> bool" where
  "is_navigation (Goto p u t) = True"
| "is_navigation a = False"

definition requested_wait :: "request \<Rightarrow> int" where
  "requested_wait req = (case waitTime req of None \<Rightarrow> 2000 | Some t \<Rightarrow> t)"

text \<open>The actions of launching and configuring a browser, and the error log.\<close>

definition lifecycle_action :: "action \<Rightarrow> bool" where
  "lifecycle_action a =
     (case a of
        MkdirTemp \<Rightarrow> True
      | Launch \<Rightarrow> True
      | NewPage h \<Rightarrow> True
      | OnDisconnected h \<Rightarrow> True
      | SetViewport p x y \<Rightarrow> True
      | SetUserAgent p \<Rightarrow> True
      | EvaluateOnNewDocument p \<Rightarrow> True
      | ConsoleError l e \<Rightarrow> True
      | _ \<Rightarrow> False)"

section \<open>Interleaving at the suspension points of \<^verbatim>\<open>initBrowser\<close>\<close>

text \<open>
  The event loop runs a caller of \<open>ensureLive\<close> until its next \<^verbatim>\<open>await\<close>, and may
  then run another caller. A caller is at the check \<^verbatim>\<open>if (!browser)\<close>, suspended
  at one of the five awaited calls of \<^verbatim>\<open>initBrowser\<close> (the call has been made, its
  promise has not settled), or has its answer.
\<close>

datatype pc =
    AtCheck
  | AwaitLaunch
  | AwaitNewPage handle
  | AwaitSetViewport page
  | AwaitSetUserAgent page
  | AwaitEvaluateOnNewDocument page
  | Resolved bool

definition caught :: "pc io \<Rightarrow> pc io" where
  "caught m = try_catch m (\<lambda>e. bnd (initBrowser_catch e) (\<lambda>b. ret (Resolved b)))"

text \<open>
  One run of a caller from where it is suspended to its next suspension: the awaited
  promise settles with the outcome the environment gives, the code after the
  \<^verbatim>\<open>await\<close> runs, and the next call is made.
\<close>

fun segment :: "env \<Rightarrow> pc \<Rightarrow> pc io" where
  "segment env AtCheck =
     bnd get_browser (\<lambda>b.
     if b = None
     then caught (bnd (ext MkdirTemp (opt (fs_mkdirSync env))) (\<lambda>_.
                  bnd (emit Launch) (\<lambda>_.
                  ret AwaitLaunch)))
     else ret (Resolved True))"
| "segment env AwaitLaunch =
     caught (bnd (lift (puppeteer_launch env)) (\<lambda>h.
             bnd (set_browser (Some h)) (\<lambda>_.
             bnd (the_browser ''newPage'') (\<lambda>b.
             bnd (emit (NewPage b)) (\<lambda>_.
             ret (AwaitNewPage b))))))"
| "segment env (AwaitNewPage b) =
     caught (bnd (lift (browser_newPage env b)) (\<lambda>p.
             bnd (set_browserPage (Some p)) (\<lambda>_.
             bnd (the_browser ''on'') (\<lambda>b.
             bnd (emit (OnDisconnected b)) (\<lambda>_.
             bnd (the_page ''setViewport'') (\<lambda>p.
             bnd (emit (SetViewport p 1920 1080)) (\<lambda>_.
             ret (AwaitSetViewport p))))))))"
| "segment env (AwaitSetViewport p) =
     caught (bnd (lift (opt (page_setViewport env p))) (\<lambda>_.
             bnd (the_page ''setUserAgent'') (\<lambda>p.
             bnd (emit (SetUserAgent p)) (\<lambda>_.
             ret (AwaitSetUserAgent p)))))"
| "segment env (AwaitSetUserAgent p) =
     caught (bnd (lift (opt (page_setUserAgent env p))) (\<lambda>_.
             bnd (the_page ''evaluateOnNewDocument'') (\<lambda>p.
             bnd (emit (EvaluateOnNewDocument p)) (\<lambda>_.
             ret (AwaitEvaluateOnNewDocument p)))))"
| "segment env (AwaitEvaluateOnNewDocument p) =
     caught (bnd (lift (opt (page_evaluateOnNewDocument env p))) (\<lambda>_.
             ret (Resolved True)))"
| "segment env (Resolved b) = ret (Resolved b)"

record world =
  vars :: session
  callers :: "pc list"
  performed :: "action list"

text \<open>
  \<open>resume envs i\<close> runs caller \<open>i\<close> for one segment; caller \<open>i\<close> meets the outcomes
  \<open>envs i\<close>. A schedule is the order in which the event loop resumes callers.
\<close>

definition resume :: "(nat \<Rightarrow> env) \<Rightarrow> nat \<Rightarrow> world \<Rightarrow> world" where
  "resume envs i w =
     (if i < length (callers w)
      then (case segment (envs i) (callers w ! i) (vars w) of
              (Inr pc', s', t) \<Rightarrow> \<lparr>vars = s', callers = (callers w)[i := pc'], performed = performed w @ t\<rparr>
            | (Inl e, s', t) \<Rightarrow> \<lparr>vars = s', callers = callers w, performed = performed w @ t\<rparr>)
      else w)"

definition run :: "(nat \<Rightarrow> env) \<Rightarrow> nat list \<Rightarrow> world \<Rightarrow> world" where
  "run envs schedule w = fold (resume envs) schedule w"

definition launches :: "action list \<Rightarrow> nat" where
  "launches t = length (filter (\<lambda>a. a = Launch) t)"

section \<open>Handlers interleaved at their suspension points\<close>

text \<open>
  The four kinds of handler that assign the two variables, each cut at its
  \<^verbatim>\<open>await\<close>s: the start request, the stop request (suspended at
  \<^verbatim>\<open>browser.close()\<close>), the fetch request (suspended inside \<^verbatim>\<open>initBrowser\<close>, or
  at the \<^verbatim>\<open>browser.newPage()\<close> it calls when the page variable is unset) and the
  \<^verbatim>\<open>disconnected\<close> handler. Inside \<^verbatim>\<open>initBrowser\<close> a handler is where \<open>segment\<close>
  puts it; when \<^verbatim>\<open>initBrowser\<close> returns, the handler goes on in the same run. The
  start request and the \<^verbatim>\<open>disconnected\<close> handler call \<^verbatim>\<open>initBrowser\<close> in a run in
  which the browser variable is unset, so the check that opens \<open>segment env AtCheck\<close>
  takes the launching branch there. A handler ends by answering its request; the
  \<^verbatim>\<open>disconnected\<close> handler answers nobody.
\<close>

datatype handler =
    StartRequest
  | StartInit pc
  | StopRequest
  | StopClose handle
  | FetchRequest request
  | FetchInit request jsstring pc
  | FetchNewPage request jsstring handle
  | Disconnected
  | DisconnectedInit pc
  | Answered response
  | Returned

definition start_next :: "pc \<Rightarrow> handler" where
  "start_next pc =
     (case pc of
        Resolved success \<Rightarrow>
          if success
          then Answered (Response 200 [(''status'', ascii ''Browser started successfully'')])
          else Answered (Response 500 [(''error'', ascii ''Failed to start browser'')])
      | _ \<Rightarrow> StartInit pc)"

definition disconnected_next :: "pc \<Rightarrow> handler" where
  "disconnected_next pc = (case pc of Resolved success \<Rightarrow> Returned | _ \<Rightarrow> DisconnectedInit pc)"

definition stop_caught :: "handler io \<Rightarrow> handler io" where
  "stop_caught m =
     try_catch m
       (\<lambda>e. ret (Answered (Response 500
                 [(''error'', ascii ''Failed to stop browser: '' @ message e)])))"

definition fetch_caught :: "handler io \<Rightarrow> handler io" where
  "fetch_caught m = try_catch m (\<lambda>e. bnd (get_markdown_catch e) (\<lambda>r. ret (Answered r)))"

text \<open>
  From the navigation on, a fetch reads the page variable at each call and assigns
  neither variable; it is run here without suspension.
\<close>

definition fetch_rest :: "env \<Rightarrow> request \<Rightarrow> jsstring \<Rightarrow> handler io" where
  "fetch_rest env req sanitizedUrl =
     bnd (navigate env sanitizedUrl) (\<lambda>_.
     bnd (wait_ready env (requested_wait req)) (\<lambda>_.
     bnd (wait_selector env (selector req)) (\<lambda>_.
     bnd (check_loaded env) (\<lambda>_.
     bnd (get_html env (selector req)) (\<lambda>html.
     bnd (convert env sanitizedUrl html) (\<lambda>r.
     ret (Answered r)))))))"

definition fetch_page :: "env \<Rightarrow> request \<Rightarrow> jsstring \<Rightarrow> handler io" where
  "fetch_page env req sanitizedUrl =
     bnd get_browserPage (\<lambda>pg.
     if pg = None
     then bnd (the_browser ''newPage'') (\<lambda>h.
          bnd (emit (NewPage h)) (\<lambda>_.
          ret (FetchNewPage req sanitizedUrl h)))
     else fetch_rest env req sanitizedUrl)"

definition fetch_next :: "env \<Rightarrow> request \<Rightarrow> jsstring \<Rightarrow> pc \<Rightarrow> handler io" where
  "fetch_next env req sanitizedUrl pc =
     (case pc of
        Resolved success \<Rightarrow>
          if \<not> success
          then ret (Answered (Response 500 [(''error'', ascii ''Failed to start browser'')]))
          else fetch_page env req sanitizedUrl
      | _ \<Rightarrow> ret (FetchInit req sanitizedUrl pc))"

fun handler_segment :: "env \<Rightarrow> handler \<Rightarrow> handler io" where
  "handler_segment env StartRequest =
     bnd get_browser (\<lambda>b.
     if b \<noteq> None
     then ret (Answered (Response 200 [(''status'', ascii ''Browser already running'')]))
     else bnd (segment env AtCheck) (\<lambda>pc.
          ret (start_next pc)))"
| "handler_segment env (StartInit pc) =
     bnd (segment env pc) (\<lambda>pc'.
     ret (start_next pc'))"
| "handler_segment env StopRequest =
     bnd get_browser (\<lambda>b.
     if b = None
     then ret (Answered (Response 200 [(''status'', ascii ''Browser not running'')]))
     else stop_caught (bnd (the_browser ''close'') (\<lambda>h.
                       bnd (emit (Close h)) (\<lambda>_.
                       ret (StopClose h)))))"
| "handler_segment env (StopClose h) =
     stop_caught (bnd (lift (opt (browser_close env h))) (\<lambda>_.
                  bnd (set_browser None) (\<lambda>_.
                  bnd (set_browserPage None) (\<lambda>_.
                  ret (Answered (Response 200
                         [(''status'', ascii ''Browser stopped successfully'')]))))))"
| "handler_segment env (FetchRequest req) =
     fetch_caught
       (if \<not> truthy (url req)
        then ret (Answered (Response 400 [(''error'', ascii ''URL is required'')]))
        else bnd (lift (sanitizeUrl env (the (url req)))) (\<lambda>sanitizedUrl.
             bnd (segment env AtCheck) (\<lambda>pc.
             fetch_next env req sanitizedUrl pc)))"
| "handler_segment env (FetchInit req sanitizedUrl pc) =
     fetch_caught (bnd (segment env pc) (\<lambda>pc'.
                   fetch_next env req sanitizedUrl pc'))"
| "handler_segment env (FetchNewPage req sanitizedUrl h) =
     fetch_caught (bnd (lift (browser_newPage env h)) (\<lambda>p.
                   bnd (set_browserPage (Some p)) (\<lambda>_.
                   fetch_rest env req sanitizedUrl)))"
| "handler_segment env Disconnected =
     bnd (cleanup env) (\<lambda>_.
     bnd (set_browser None) (\<lambda>_.
     bnd (set_browserPage None) (\<lambda>_.
     bnd (segment env AtCheck) (\<lambda>pc.
     ret (disconnected_next pc)))))"
| "handler_segment env (DisconnectedInit pc) =
     bnd (segment env pc) (\<lambda>pc'.
     ret (disconnected_next pc'))"
| "handler_segment env (Answered r) = ret (Answered r)"
| "handler_segment env Returned = ret Returned"

record server =
  variables :: session
  handlers :: "handler list"
  acted :: "action list"

definition resume_handler :: "(nat \<Rightarrow> env) \<Rightarrow> nat \<Rightarrow> server \<Rightarrow> server" where
  "resume_handler envs i w =
     (if i < length (handlers w)
      then (case handler_segment (envs i) (handlers w ! i) (variables w) of
              (Inr h', s', t) \<Rightarrow>
                \<lparr>variables = s', handlers = (handlers w)[i := h'], acted = acted w @ t\<rparr>
            | (Inl e, s', t) \<Rightarrow>
                \<lparr>variables = s', handlers = handlers w, acted = acted w @ t\<rparr>)
      else w)"

definition run_handlers :: "(nat \<Rightarrow> env) \<Rightarrow> nat list \<Rightarrow> server \<Rightarrow> server" where
  "run_handlers envs schedule w = fold (resume_handler envs) schedule w"

section \<open>An example environment\<close>

text \<open>
  A browser that starts, and a page on which every call succeeds, except that no
  selector ever matches: waiting for one times out and querying one finds nothing.
  The URL parser accepts \<^verbatim>\<open>https://example.com\<close> (normalised with a trailing slash)
  and rejects everything else, among it the scheme-less \<^verbatim>\<open>invalid-url\<close> of the
  repository's test script.
\<close>

definition example_env :: env where
  "example_env =
     \<lparr>new_URL = (\<lambda>u. if u = ascii ''https://example.com''
                      then Some (ascii ''https://example.com/'') else None),
      fs_mkdirSync = None,
      puppeteer_launch = Inr 1,
      browser_newPage = (\<lambda>h. Inr h),
      page_setViewport = (\<lambda>p. None),
      page_setUserAgent = (\<lambda>p. None),
      page_evaluateOnNewDocument = (\<lambda>p. None),
      fs_existsSync = True,
      fs_rmSync = None,
      browser_close = (\<lambda>h. None),
      page_goto = (\<lambda>p u. None),
      page_waitForNetworkIdle = (\<lambda>p. Fulfilled 5000),
      page_documentComplete = (\<lambda>p. Fulfilled 0),
      timer = (\<lambda>d. nat d),
      page_waitForSelector = (\<lambda>p sel. Some (Error (ascii ''Waiting for selector failed''))),
      page_isPageLoaded = (\<lambda>p. Inr True),
      page_query = (\<lambda>p sel. Inr None),
      page_outerHTML = (\<lambda>p el. Inr (ascii ''<h1>Example Domain</h1>'')),
      page_content = (\<lambda>p. Inr (ascii ''<html><h1>Example Domain</h1></html>'')),
      turndown = (\<lambda>html. Inr (ascii ''# Example Domain'')),
      page_title = (\<lambda>p. Inr (ascii ''Example Domain''))\<rparr>"

definition failing_env :: env where
  "failing_env = example_env\<lparr>puppeteer_launch := Inl (Error (ascii ''Failed to launch''))\<rparr>"

definition live :: session where
  "live = \<lparr>browser = Some 1, browserPage = Some 1\<rparr>"

definition example_request :: request where
  "example_request = \<lparr>url = Some (ascii ''https://example.com''), waitTime = None,
                       selector = None\<rparr>"

text \<open>
  Two callers of \<open>ensureLive\<close> whose launches both succeed, with browser objects 1
  and 2; \<open>fresh n\<close> is the server with no browser and \<open>n\<close> callers about to check.
\<close>

definition two_callers :: "nat \<Rightarrow> env" where
  "two_callers i = example_env\<lparr>puppeteer_launch := Inr (Suc i)\<rparr>"

definition fresh :: "nat \<Rightarrow> world" where
  "fresh n = \<lparr>vars = absent, callers = replicate n AtCheck, performed = []\<rparr>"

text \<open>
  A page whose markup holds a NUL and a line separator, with a converter that returns
  its input.
\<close>

definition dirty_env :: env where
  "dirty_env = example_env\<lparr>page_content := (\<lambda>p. Inr (ascii ''a'' @ [0, 0x2028] @ ascii ''b'')),
                            turndown := (\<lambda>html. Inr html)\<rparr>"

text \<open>
  Two handlers, the first of which meets a \<^verbatim>\<open>browser.newPage()\<close> that rejects:
  in \<open>rejecting_start\<close> the second gets page 2 from its own \<^verbatim>\<open>newPage\<close>, in
  \<open>rejecting_restart\<close> the second launches browser 2.
\<close>

definition rejecting_start :: "nat \<Rightarrow> env" where
  "rejecting_start i =
     (if i = 0 then example_env\<lparr>browser_newPage := (\<lambda>h. Inl (Error (ascii ''Protocol error'')))\<rparr>
      else example_env\<lparr>browser_newPage := (\<lambda>h. Inr 2)\<rparr>)"

definition rejecting_restart :: "nat \<Rightarrow> env" where
  "rejecting_restart i =
     (if i = 0 then example_env\<lparr>browser_newPage := (\<lambda>h. Inl (Error (ascii ''Protocol error'')))\<rparr>
      else example_env\<lparr>puppeteer_launch := Inr 2\<rparr>)"

section \<open>Unfolding rules\<close>

lemmas io_defs = ret_def throw_def bnd_def try_catch_def emit_def ext_def opt_def lift_def
  get_browser_def get_browserPage_def set_browser_def set_browserPage_def the_browser_def
  the_page_def

lemmas out_defs = result_def state_after_def trace_def

lemmas init_defs = initBrowser_def initBrowser_try_def initBrowser_catch_def

lemmas fetch_defs = get_markdown_def get_markdown_try_def get_markdown_catch_def
  sanitizeUrl_def ensureLive_def ensure_page_def navigate_def wait_ready_def await_def
  sleep_def readiness_def promise_all_def wait_selector_def check_loaded_def full_page_def
  get_html_def convert_def requested_wait_def

lemmas example_defs = example_env_def failing_env_def dirty_env_def live_def absent_def
  example_request_def

lemmas image_defs = preserveImages_def getAttribute_def or_empty_def truthy_def
  spec_image_def image_markdown_def default_empty_def

section \<open>Markup sanitization\<close>

lemma sanitizeHtml_no_nul: "0 \<notin> set (sanitizeHtml html)"
  by (auto simp add: sanitizeHtml_def strip_nul_def replace_separators_def)

lemma sanitizeHtml_no_separator:
  "0x2028 \<notin> set (sanitizeHtml html)" "0x2029 \<notin> set (sanitizeHtml html)"
  by (auto simp add: sanitizeHtml_def strip_nul_def replace_separators_def)

lemma sanitizeHtml_clean:
  "0 \<notin> set html \<Longrightarrow> 0x2028 \<notin> set html \<Longrightarrow> 0x2029 \<notin> set html \<Longrightarrow> sanitizeHtml html = html"
  by (induction html) (auto simp add: sanitizeHtml_def strip_nul_def replace_separators_def)

lemma sanitizeHtml_example:
  "sanitizeHtml [0x61, 0, 0x2028, 0x62, 0x2029] = [0x61, 0x20, 0x62, 0x20]"
  by (simp add: sanitizeHtml_def strip_nul_def replace_separators_def)

section \<open>The image rule\<close>

text \<open>
  C3, as stated, fails: an \<^verbatim>\<open>img\<close> element whose \<^verbatim>\<open>src\<close> attribute is present but
  empty is rendered as the empty string by the rule, where the stated rendering of an
  element with a \<^verbatim>\<open>src\<close> attribute is \<^verbatim>\<open>![x]()\<close>.
\<close>

theorem image_rule_counterexample:
  "attrs (img [(''src'', ''''), (''alt'', ''x'')]) (ascii ''src'') = Some []
   \<and> preserveImages [] (img [(''src'', ''''), (''alt'', ''x'')]) = []
   \<and> spec_image (img [(''src'', ''''), (''alt'', ''x'')]) = ascii ''![x]()''"
  by (simp add: image_defs img_def ascii_def)

text \<open>
  C3, amended: for every \<^verbatim>\<open>img\<close> element the image rule yields
  \<^verbatim>\<open>![alt](src "title")\<close> (the quoted title left out when it is empty) when the
  \<^verbatim>\<open>src\<close> attribute is present and not the empty string, with \<^verbatim>\<open>alt\<close> and
  \<^verbatim>\<open>title\<close> defaulting to the empty string when absent, and yields the empty string
  otherwise; \<^verbatim>\<open><img src="a.png" alt="x">\<close> yields exactly \<^verbatim>\<open>![x](a.png)\<close> and
  \<^verbatim>\<open><img alt="x">\<close> yields the empty string.
\<close>

theorem image_rule_nonempty_src:
  "preserveImages content n =
     (if truthy (attrs n (ascii ''src'')) then spec_image n else [])
   \<and> preserveImages content (img [(''src'', ''a.png''), (''alt'', ''x'')]) = ascii ''![x](a.png)''
   \<and> preserveImages content (img [(''alt'', ''x'')]) = []"
  by (auto simp add: image_defs img_def ascii_def Let_def split: option.splits)

text \<open>
  C10: an \<^verbatim>\<open>img\<close> element whose \<^verbatim>\<open>src\<close> attribute is present but equal to the
  empty string is rendered as the empty string, exactly as the same element without
  the attribute is.
\<close>

theorem empty_src_dropped:
  "attrs n (ascii ''src'') = Some [] \<Longrightarrow>
     preserveImages content n = []
     \<and> preserveImages content n
         = preserveImages content (n\<lparr>attrs := (attrs n)(ascii ''src'' := None)\<rparr>)"
  by (simp add: image_defs ascii_def Let_def)

theorem empty_src_dropped_witness:
  "attrs (img [(''src'', ''''), (''alt'', ''x'')]) (ascii ''src'') = Some []
   \<and> preserveImages [] (img [(''src'', ''''), (''alt'', ''x'')]) = []
   \<and> preserveImages [] (img [(''src'', ''''), (''alt'', ''x'')])
       = preserveImages [] ((img [(''src'', ''''), (''alt'', ''x'')])
           \<lparr>attrs := (attrs (img [(''src'', ''''), (''alt'', ''x'')]))(ascii ''src'' := None)\<rparr>)"
proof -
  have h: "attrs (img [(''src'', ''''), (''alt'', ''x'')]) (ascii ''src'') = Some []"
    by (simp add: img_def ascii_def)
  show ?thesis
    using h empty_src_dropped [OF h, of "[]"] by blast
qed

section \<open>Starting a running browser\<close>

text \<open>
  C7: \<^verbatim>\<open>POST /api/start-browser\<close> while the browser variable is set answers
  "Browser already running", makes no external call and leaves both session variables
  as they were: the same browser object before and after.
\<close>

theorem start_when_live:
  "browser s = Some h \<Longrightarrow>
     start_browser env s
       = (Inr (Response 200 [(''status'', ascii ''Browser already running'')]), s, [])"
  by (simp add: start_browser_def io_defs)

theorem start_when_live_witness:
  "browser live = Some 1
   \<and> start_browser example_env live
       = (Inr (Response 200 [(''status'', ascii ''Browser already running'')]), live, [])"
proof -
  have h: "browser live = Some 1"
    by (simp add: live_def)
  show ?thesis
    using h start_when_live [OF h, of example_env] by simp
qed

section \<open>Malformed URLs\<close>

text \<open>
  C1, as stated, fails: the scheme-less \<^verbatim>\<open>invalid-url\<close> of the repository's test
  script, which the URL parser rejects, is answered with status 500, not 400.
\<close>

theorem invalid_url_counterexample:
  "new_URL example_env (ascii ''invalid-url'') = None
   \<and> result (get_markdown example_env
        \<lparr>url = Some (ascii ''invalid-url''), waitTime = Some 1000, selector = None\<rparr> absent)
      = Inr (Response 500 [(''error'', ascii ''Failed to process URL''),
                           (''message'', ascii ''Invalid URL format'')])"
  by (simp add: fetch_defs io_defs out_defs example_defs truthy_def ascii_def)

text \<open>
  C1, amended: for every malformed \<^verbatim>\<open>url\<close> value the fetch answers with an error
  before any browser launch or navigation attempt (no external call is made) and leaves
  the session unchanged: a missing or empty \<^verbatim>\<open>url\<close> is answered with status 400 and
  "URL is required"; a non-empty string that the URL parser rejects is answered with
  status 500 and "Failed to process URL", message "Invalid URL format", after the error
  has been logged.
\<close>

theorem malformed_url_rejected:
  "(url req = None \<or> url req = Some [] \<longrightarrow>
      get_markdown env req s
        = (Inr (Response 400 [(''error'', ascii ''URL is required'')]), s, []))
   \<and> (url req = Some u \<and> u \<noteq> [] \<and> new_URL env u = None \<longrightarrow>
      get_markdown env req s
        = (Inr (Response 500 [(''error'', ascii ''Failed to process URL''),
                              (''message'', ascii ''Invalid URL format'')]), s,
           [ConsoleError (ascii ''Error fetching page:'') (Error (ascii ''Invalid URL format''))]))"
  by (auto simp add: get_markdown_def get_markdown_try_def get_markdown_catch_def
        sanitizeUrl_def io_defs truthy_def)

theorem malformed_url_rejected_witness:
  "get_markdown example_env \<lparr>url = Some [], waitTime = None, selector = None\<rparr> absent
     = (Inr (Response 400 [(''error'', ascii ''URL is required'')]), absent, [])
   \<and> new_URL example_env (ascii ''invalid-url'') = None
   \<and> get_markdown example_env
        \<lparr>url = Some (ascii ''invalid-url''), waitTime = None, selector = None\<rparr> absent
     = (Inr (Response 500 [(''error'', ascii ''Failed to process URL''),
                           (''message'', ascii ''Invalid URL format'')]), absent,
        [ConsoleError (ascii ''Error fetching page:'') (Error (ascii ''Invalid URL format''))])"
proof -
  have h: "new_URL example_env (ascii ''invalid-url'') = None"
    by (simp add: example_env_def ascii_def)
  have n: "ascii ''invalid-url'' \<noteq> []"
    by (simp add: ascii_def)
  show ?thesis
    using h n
      malformed_url_rejected [where req = "\<lparr>url = Some [], waitTime = None, selector = None\<rparr>"
        and env = example_env and s = absent and u = "[]"]
      malformed_url_rejected [where req = "\<lparr>url = Some (ascii ''invalid-url''), waitTime = None,
        selector = None\<rparr>" and env = example_env and s = absent and u = "ascii ''invalid-url''"]
    by simp
qed

section \<open>Result, state and trace of composed runs\<close>

lemma result_bnd:
  "result (bnd m f s)
     = (case result (m s) of Inl e \<Rightarrow> Inl e | Inr x \<Rightarrow> result (f x (state_after (m s))))"
  by (simp add: bnd_def out_defs split: prod.splits sum.splits)

lemma state_bnd:
  "state_after (bnd m f s)
     = (case result (m s) of
          Inl e \<Rightarrow> state_after (m s)
        | Inr x \<Rightarrow> state_after (f x (state_after (m s))))"
  by (simp add: bnd_def out_defs split: prod.splits sum.splits)

lemma trace_bnd:
  "trace (bnd m f s)
     = trace (m s) @ (case result (m s) of
                        Inl e \<Rightarrow> []
                      | Inr x \<Rightarrow> trace (f x (state_after (m s))))"
  by (simp add: bnd_def out_defs split: prod.splits sum.splits)

lemma result_try:
  "result (try_catch m h s)
     = (case result (m s) of Inl e \<Rightarrow> result (h e (state_after (m s))) | Inr x \<Rightarrow> Inr x)"
  by (simp add: try_catch_def out_defs split: prod.splits sum.splits)

lemma state_try:
  "state_after (try_catch m h s)
     = (case result (m s) of
          Inl e \<Rightarrow> state_after (h e (state_after (m s)))
        | Inr x \<Rightarrow> state_after (m s))"
  by (simp add: try_catch_def out_defs split: prod.splits sum.splits)

lemma trace_try:
  "trace (try_catch m h s)
     = trace (m s) @ (case result (m s) of
                        Inl e \<Rightarrow> trace (h e (state_after (m s)))
                      | Inr x \<Rightarrow> [])"
  by (simp add: try_catch_def out_defs split: prod.splits sum.splits)

lemma out_ret:
  "result (ret x s) = Inr x" "state_after (ret x s) = s" "trace (ret x s) = []"
  by (simp_all add: ret_def out_defs)

lemma out_throw:
  "result (throw e s) = Inl e" "state_after (throw e s) = s" "trace (throw e s) = []"
  by (simp_all add: throw_def out_defs)

lemma out_lift:
  "result (lift r s) = r" "state_after (lift r s) = s" "trace (lift r s) = []"
  by (simp_all add: lift_def out_defs)

lemma out_emit:
  "result (emit a s) = Inr ()" "state_after (emit a s) = s" "trace (emit a s) = [a]"
  by (simp_all add: emit_def out_defs)

lemma out_ext:
  "result (ext a r s) = r" "state_after (ext a r s) = s" "trace (ext a r s) = [a]"
  by (simp_all add: ext_def out_defs)

lemma out_get_browser:
  "result (get_browser s) = Inr (browser s)" "state_after (get_browser s) = s"
  "trace (get_browser s) = []"
  by (simp_all add: get_browser_def out_defs)

lemma out_get_browserPage:
  "result (get_browserPage s) = Inr (browserPage s)" "state_after (get_browserPage s) = s"
  "trace (get_browserPage s) = []"
  by (simp_all add: get_browserPage_def out_defs)

lemma out_set_browser:
  "result (set_browser b s) = Inr ()" "state_after (set_browser b s) = s\<lparr>browser := b\<rparr>"
  "trace (set_browser b s) = []"
  by (simp_all add: set_browser_def out_defs)

lemma out_set_browserPage:
  "result (set_browserPage p s) = Inr ()"
  "state_after (set_browserPage p s) = s\<lparr>browserPage := p\<rparr>"
  "trace (set_browserPage p s) = []"
  by (simp_all add: set_browserPage_def out_defs)

lemma out_the_browser:
  "result (the_browser m s) = (case browser s of None \<Rightarrow> Inl (null_deref m) | Some h \<Rightarrow> Inr h)"
  "state_after (the_browser m s) = s" "trace (the_browser m s) = []"
  by (simp_all add: the_browser_def out_defs split: option.splits)

lemma out_the_page:
  "result (the_page m s) = (case browserPage s of None \<Rightarrow> Inl (null_deref m) | Some p \<Rightarrow> Inr p)"
  "state_after (the_page m s) = s" "trace (the_page m s) = []"
  by (simp_all add: the_page_def out_defs split: option.splits)

lemma out_await:
  "result (await p s) = (case p of Fulfilled t \<Rightarrow> Inr () | Rejected t e \<Rightarrow> Inl e)"
  "state_after (await p s) = s" "trace (await p s) = [Waited (settle_time p)]"
  by (simp_all add: await_def result_bnd state_bnd trace_bnd out_emit out_ret out_throw
      split: settled.splits)

lemma out_sleep:
  "result (sleep env n s) = Inr ()" "state_after (sleep env n s) = s"
  "trace (sleep env n s) = [Sleep n, Waited (timer env (int n))]"
  by (simp_all add: sleep_def result_bnd state_bnd trace_bnd out_emit out_await)

lemmas out_simps = result_bnd state_bnd trace_bnd result_try state_try trace_try out_ret
  out_throw out_lift out_emit out_ext out_get_browser out_get_browserPage out_set_browser
  out_set_browserPage out_the_browser out_the_page out_await out_sleep

section \<open>What each part of the server does\<close>

lemma absent_update: "s\<lparr>browser := None, browserPage := None\<rparr> = absent"
  by (cases s) (simp add: absent_def)

lemma initBrowser_actions: "a \<in> set (trace (initBrowser env s)) \<Longrightarrow> lifecycle_action a"
  by (auto simp add: init_defs out_simps lifecycle_action_def
      split: sum.splits option.splits if_splits)

lemma initBrowser_result:
  "result (initBrowser env s) = Inr True \<or> result (initBrowser env s) = Inr False"
  by (auto simp add: init_defs out_simps split: sum.splits option.splits if_splits)

lemma initBrowser_state:
  "(result (initBrowser env s) = Inr False \<and> state_after (initBrowser env s) = absent)
   \<or> (\<exists>h p. result (initBrowser env s) = Inr True
          \<and> state_after (initBrowser env s) = \<lparr>browser = Some h, browserPage = Some p\<rparr>)"
  by (cases s)
     (auto simp add: init_defs out_simps absent_def split: sum.splits option.splits if_splits)

lemma initBrowser_inv: "session_inv (state_after (initBrowser env s))"
  using initBrowser_state [of env s] by (auto simp add: session_inv_def absent_def)

lemma ensureLive_actions: "a \<in> set (trace (ensureLive env s)) \<Longrightarrow> lifecycle_action a"
  by (auto simp add: ensureLive_def out_simps dest: initBrowser_actions split: if_splits)

lemma ensureLive_inv: "session_inv s \<Longrightarrow> session_inv (state_after (ensureLive env s))"
  by (simp add: ensureLive_def out_simps initBrowser_inv)

lemma ensure_page_actions: "a \<in> set (trace (ensure_page env s)) \<Longrightarrow> lifecycle_action a"
  by (auto simp add: ensure_page_def out_simps lifecycle_action_def
      split: sum.splits option.splits if_splits)

lemma ensure_page_inv: "session_inv s \<Longrightarrow> session_inv (state_after (ensure_page env s))"
  by (auto simp add: ensure_page_def out_simps session_inv_def
      split: sum.splits option.splits)

lemma navigate_state: "state_after (navigate env u s) = s"
  by (auto simp add: navigate_def out_simps split: sum.splits option.splits)

lemma wait_ready_state: "state_after (wait_ready env w s) = s"
  by (auto simp add: wait_ready_def out_simps split: sum.splits option.splits settled.splits)

lemma wait_selector_state: "state_after (wait_selector env sel s) = s"
  by (auto simp add: wait_selector_def out_simps split: sum.splits option.splits)

lemma check_loaded_state: "state_after (check_loaded env s) = s"
  by (auto simp add: check_loaded_def out_simps split: sum.splits option.splits)

lemma get_html_state: "state_after (get_html env sel s) = s"
  by (auto simp add: get_html_def full_page_def out_simps split: sum.splits option.splits)

lemma convert_state: "state_after (convert env u html s) = s"
  by (auto simp add: convert_def out_simps Let_def split: sum.splits option.splits)

lemmas phase_state = navigate_state wait_ready_state wait_selector_state check_loaded_state
  get_html_state convert_state

section \<open>The session invariant\<close>

lemma get_markdown_state:
  "state_after (get_markdown env req s) = s
   \<or> state_after (get_markdown env req s) = state_after (ensureLive env s)
   \<or> state_after (get_markdown env req s)
       = state_after (ensure_page env (state_after (ensureLive env s)))"
  by (simp add: get_markdown_def get_markdown_try_def get_markdown_catch_def out_simps
      phase_state Let_def split: sum.splits)

lemma get_markdown_inv:
  "session_inv s \<Longrightarrow> session_inv (state_after (get_markdown env req s))"
  using get_markdown_state [of env req s] by (auto simp add: ensureLive_inv ensure_page_inv)

lemma start_browser_inv:
  "session_inv s \<Longrightarrow> session_inv (state_after (start_browser env s))"
  by (auto simp add: start_browser_def out_simps initBrowser_inv split: sum.splits)

lemma stop_browser_inv:
  "session_inv s \<Longrightarrow> session_inv (state_after (stop_browser env s))"
  by (auto simp add: stop_browser_def out_simps session_inv_def
      split: sum.splits option.splits)

lemma out_cleanup:
  "result (cleanup env s) = Inr ()" "state_after (cleanup env s) = s"
  "trace (cleanup env s)
     = ExistsTemp # (if fs_existsSync env
                     then RmTemp # (case fs_rmSync env of
                                      None \<Rightarrow> []
                                    | Some e \<Rightarrow>
                                        [ConsoleWarn (ascii ''Cleanup warning: '' @ message e)])
                     else [])"
  by (simp_all add: cleanup_def out_simps opt_def split: option.splits)

lemma on_disconnected_inv: "session_inv (state_after (on_disconnected env s))"
  by (simp add: on_disconnected_def out_simps out_cleanup initBrowser_inv split: sum.splits)

lemma perform_inv: "session_inv s \<Longrightarrow> session_inv (perform env o' s)"
  by (cases o')
     (simp_all add: perform_def start_browser_inv stop_browser_inv on_disconnected_inv
        get_markdown_inv)

lemma run_ops_inv: "session_inv s \<Longrightarrow> session_inv (run_ops ops s)"
  by (induction ops arbitrary: s) (auto simp add: perform_inv)

lemmas handler_defs = run_handlers_def resume_handler_def start_next_def disconnected_next_def
  stop_caught_def fetch_caught_def fetch_rest_def fetch_page_def fetch_next_def caught_def
  cleanup_def initBrowser_catch_def

text \<open>
  C6, as stated, fails. A start request launches a browser and is suspended at
  \<^verbatim>\<open>browser.newPage()\<close>; a fetch request finds the browser variable set and the page
  variable unset and is suspended at its own \<^verbatim>\<open>browser.newPage()\<close>; the first call
  rejects, so the start request clears both variables and answers 500; the second
  resolves, so the fetch request sets the page variable and answers 200. Both operations
  have ended, the browser variable is unset and the page variable is set.
\<close>

theorem overlapping_handlers_counterexample:
  "variables (run_handlers rejecting_start [0, 0, 1, 0, 1]
       \<lparr>variables = absent, handlers = [StartRequest, FetchRequest example_request], acted = []\<rparr>)
     = \<lparr>browser = None, browserPage = Some 2\<rparr>
   \<and> handlers (run_handlers rejecting_start [0, 0, 1, 0, 1]
       \<lparr>variables = absent, handlers = [StartRequest, FetchRequest example_request], acted = []\<rparr>)
     = [Answered (Response 500 [(''error'', ascii ''Failed to start browser'')]),
        Answered (Response 200 [(''url'', ascii ''https://example.com/''),
                                (''markdown'', ascii ''# Example Domain''),
                                (''title'', ascii ''Example Domain'')])]
   \<and> \<not> session_inv \<lparr>browser = None, browserPage = Some 2\<rparr>"
  by (simp add: handler_defs fetch_defs io_defs example_defs rejecting_start_def truthy_def
      session_inv_def ascii_def)

text \<open>
  The invariant is also broken where an operation ends without assigning anything:
  a start request that arrives while another caller's launch has settled and its
  \<^verbatim>\<open>newPage\<close> has not answers "Browser already running" with the page variable unset.
\<close>

lemma start_answers_inside_launch:
  "vars (run two_callers [0, 0] (fresh 1)) = \<lparr>browser = Some 1, browserPage = None\<rparr>
   \<and> callers (run two_callers [0, 0] (fresh 1)) = [AwaitNewPage 1]
   \<and> start_browser example_env \<lparr>browser = Some 1, browserPage = None\<rparr>
       = (Inr (Response 200 [(''status'', ascii ''Browser already running'')]),
          \<lparr>browser = Some 1, browserPage = None\<rparr>, [])"
  by (simp add: run_def resume_def caught_def fresh_def two_callers_def start_browser_def
      io_defs initBrowser_catch_def example_defs)

text \<open>
  C6, amended: when the operations (start, stop, the disconnect handler, fetch) run one
  at a time, each to completion before the next begins, the page variable is set exactly
  when the browser variable is: this holds at server start, every operation keeps it
  whatever its external calls answer, so it holds after every sequence of operations.
  (The invariant speaks of the two variables; whether the browser behind a set variable
  is still alive is recorded nowhere in the server.)
\<close>

theorem session_invariant:
  "session_inv absent
   \<and> (session_inv s \<longrightarrow> session_inv (perform env o' s))
   \<and> session_inv (run_ops ops absent)"
proof -
  have a: "session_inv absent"
    by (simp add: session_inv_def absent_def)
  show ?thesis
    using a by (simp add: perform_inv run_ops_inv)
qed

theorem session_invariant_witness:
  "session_inv live
   \<and> session_inv (perform example_env StopBrowser live)
   \<and> perform example_env StopBrowser live = absent
   \<and> session_inv (run_ops [(failing_env, StartBrowser), (example_env, GetMarkdown example_request),
                            (example_env, BrowserDisconnected)] absent)"
proof -
  have l: "session_inv live"
    by (simp add: session_inv_def live_def)
  have p: "perform example_env StopBrowser live = absent"
    by (simp add: perform_def stop_browser_def out_simps example_defs opt_def)
  show ?thesis
    using l p
      session_invariant [of live example_env StopBrowser
        "[(failing_env, StartBrowser), (example_env, GetMarkdown example_request),
          (example_env, BrowserDisconnected)]"]
    by simp
qed

section \<open>Disconnection\<close>

lemma segment_returns: "\<exists>pc'. result (segment env pc s) = Inr pc'"
  by (cases pc)
     (auto simp add: caught_def initBrowser_catch_def out_simps
        split: sum.splits option.splits if_splits)

lemma disconnected_next_cases:
  "disconnected_next pc = Returned \<or> (\<exists>pc'. disconnected_next pc = DisconnectedInit pc')"
  by (cases pc) (simp_all add: disconnected_next_def)

lemma handler_never_answers:
  "\<exists>h. result (handler_segment env Disconnected s) = Inr h
        \<and> (h = Returned \<or> (\<exists>pc'. h = DisconnectedInit pc'))"
  "\<exists>h. result (handler_segment env (DisconnectedInit pc) s) = Inr h
        \<and> (h = Returned \<or> (\<exists>pc'. h = DisconnectedInit pc'))"
proof -
  obtain pc1 where
    "result (segment env AtCheck (state_after (set_browserPage None (state_after
        (set_browser None (state_after (cleanup env s))))))) = Inr pc1"
    using segment_returns by blast
  then show "\<exists>h. result (handler_segment env Disconnected s) = Inr h
        \<and> (h = Returned \<or> (\<exists>pc'. h = DisconnectedInit pc'))"
    using disconnected_next_cases [of pc1]
    by (simp add: result_bnd state_bnd out_ret out_set_browser out_set_browserPage out_cleanup)
next
  obtain pc2 where "result (segment env pc s) = Inr pc2"
    using segment_returns by blast
  then show "\<exists>h. result (handler_segment env (DisconnectedInit pc) s) = Inr h
        \<and> (h = Returned \<or> (\<exists>pc'. h = DisconnectedInit pc'))"
    using disconnected_next_cases [of pc2]
    by (simp add: result_bnd state_bnd out_ret)
qed

lemma handler_first_segment:
  "handler_segment env Disconnected s
     = (case fs_mkdirSync env of
          None \<Rightarrow> (Inr (DisconnectedInit AwaitLaunch), absent,
                    trace (cleanup env s) @ [MkdirTemp, Launch])
        | Some e \<Rightarrow> (Inr Returned, absent,
                      trace (cleanup env s)
                      @ [MkdirTemp, ConsoleError (ascii ''Error launching browser:'') e,
                         ConsoleError (ascii ''Error details:'') e]))"
  by (cases s)
     (simp add: cleanup_def caught_def initBrowser_catch_def disconnected_next_def io_defs
        out_defs absent_def split: option.splits)

lemma on_disconnected_alone:
  "result (on_disconnected env s) = Inr ()
   \<and> state_after (on_disconnected env s) = state_after (initBrowser env absent)
   \<and> trace (on_disconnected env s) = trace (cleanup env s) @ trace (initBrowser env absent)"
  using initBrowser_result [of env absent]
  by (auto simp add: on_disconnected_def out_simps out_cleanup absent_update
      simp del: append_Cons split: sum.splits)

lemma failed_restart_logged:
  "result (initBrowser env s) = Inr False \<Longrightarrow>
     \<exists>e. ConsoleError (ascii ''Error launching browser:'') e \<in> set (trace (initBrowser env s))"
  by (auto simp add: init_defs out_simps split: sum.splits option.splits if_splits)

text \<open>
  C9, as stated, fails in its last part. The disconnect handler restarts while a fetch
  request, whose own launch and \<^verbatim>\<open>newPage\<close> succeed, is inside \<^verbatim>\<open>initBrowser\<close>; the
  \<^verbatim>\<open>newPage\<close> of the restart rejects, its \<^verbatim>\<open>catch\<close> clears both variables, and the
  fetch request then fails on the cleared browser variable and answers 500. With the
  same schedule and a restart that succeeds, the same fetch answers 200.
\<close>

theorem failed_restart_counterexample:
  "handlers (run_handlers rejecting_restart [0, 1, 0, 1, 0, 1]
       \<lparr>variables = live, handlers = [Disconnected, FetchRequest example_request], acted = []\<rparr>)
     = [Returned, Answered (Response 500 [(''error'', ascii ''Failed to start browser'')])]
   \<and> handlers (run_handlers two_callers [0, 1, 0, 1, 0, 1, 0, 1, 0, 1, 0, 1]
       \<lparr>variables = live, handlers = [Disconnected, FetchRequest example_request], acted = []\<rparr>)
     = [Returned,
        Answered (Response 200 [(''url'', ascii ''https://example.com/''),
                                (''markdown'', ascii ''# Example Domain''),
                                (''title'', ascii ''Example Domain'')])]"
  by (simp add: handler_defs fetch_defs io_defs example_defs rejecting_restart_def
      two_callers_def truthy_def ascii_def)

text \<open>
  C9, amended: when the disconnect signal is raised, the handler, in its first run and
  before anything else can run, clears both session variables (whatever they held) and
  makes a start attempt: it is suspended at the launch it has called, with the state
  Absent. The handler never throws and answers nobody. Run with no other handler
  overlapping it, it ends in the state the start attempt ends in, and a failure of the
  restart is logged and leaves the state Absent. (A request that overlaps a failed
  restart can fail with it, as the counterexample shows.)
\<close>

theorem disconnect_restarts:
  "(i < length (handlers w) \<and> handlers w ! i = Disconnected \<longrightarrow>
      variables (resume_handler envs i w) = absent
      \<and> (fs_mkdirSync (envs i) = None \<longrightarrow>
           handlers (resume_handler envs i w) = (handlers w)[i := DisconnectedInit AwaitLaunch]
           \<and> acted (resume_handler envs i w)
               = acted w @ trace (cleanup (envs i) (variables w)) @ [MkdirTemp, Launch]))
   \<and> (\<exists>h. result (handler_segment env Disconnected s) = Inr h
          \<and> (h = Returned \<or> (\<exists>pc'. h = DisconnectedInit pc')))
   \<and> (\<exists>h. result (handler_segment env (DisconnectedInit pc) s) = Inr h
          \<and> (h = Returned \<or> (\<exists>pc'. h = DisconnectedInit pc')))
   \<and> result (on_disconnected env s) = Inr ()
   \<and> state_after (on_disconnected env s) = state_after (initBrowser env absent)
   \<and> trace (on_disconnected env s) = trace (cleanup env s) @ trace (initBrowser env absent)
   \<and> (result (initBrowser env absent) = Inr False \<longrightarrow>
        state_after (on_disconnected env s) = absent
        \<and> (\<exists>e. ConsoleError (ascii ''Error launching browser:'') e
                 \<in> set (trace (on_disconnected env s))))"
proof -
  have first: "i < length (handlers w) \<and> handlers w ! i = Disconnected \<longrightarrow>
      variables (resume_handler envs i w) = absent
      \<and> (fs_mkdirSync (envs i) = None \<longrightarrow>
           handlers (resume_handler envs i w) = (handlers w)[i := DisconnectedInit AwaitLaunch]
           \<and> acted (resume_handler envs i w)
               = acted w @ trace (cleanup (envs i) (variables w)) @ [MkdirTemp, Launch])"
    by (simp add: resume_handler_def handler_first_segment del: handler_segment.simps
        split: option.splits)
  have failed: "result (initBrowser env absent) = Inr False \<longrightarrow>
        state_after (on_disconnected env s) = absent
        \<and> (\<exists>e. ConsoleError (ascii ''Error launching browser:'') e
                 \<in> set (trace (on_disconnected env s)))"
    using on_disconnected_alone [of env s] initBrowser_state [of env absent]
      failed_restart_logged [of env absent]
    by auto
  show ?thesis
    using first failed handler_never_answers(1) [where env = env and s = s]
      handler_never_answers(2) [where env = env and s = s and pc = pc]
      on_disconnected_alone [of env s]
    by blast
qed

theorem disconnect_restarts_witness:
  "0 < length (handlers \<lparr>variables = live, handlers = [Disconnected], acted = []\<rparr>)
   \<and> handlers \<lparr>variables = live, handlers = [Disconnected], acted = []\<rparr> ! 0 = Disconnected
   \<and> fs_mkdirSync failing_env = None
   \<and> result (initBrowser failing_env absent) = Inr False
   \<and> variables (resume_handler (\<lambda>_. failing_env) 0
        \<lparr>variables = live, handlers = [Disconnected], acted = []\<rparr>) = absent
   \<and> handlers (resume_handler (\<lambda>_. failing_env) 0
        \<lparr>variables = live, handlers = [Disconnected], acted = []\<rparr>)
       = [DisconnectedInit AwaitLaunch]
   \<and> result (on_disconnected failing_env live) = Inr ()
   \<and> state_after (on_disconnected failing_env live) = absent
   \<and> (\<exists>e. ConsoleError (ascii ''Error launching browser:'') e
            \<in> set (trace (on_disconnected failing_env live)))"
proof -
  let ?w = "\<lparr>variables = live, handlers = [Disconnected], acted = []\<rparr>"
  have m: "fs_mkdirSync failing_env = None"
    by (simp add: example_defs)
  have f: "result (initBrowser failing_env absent) = Inr False"
    by (simp add: init_defs out_simps example_defs opt_def)
  have l: "0 < length (handlers ?w) \<and> handlers ?w ! 0 = Disconnected"
    by simp
  have u: "(handlers ?w)[0 := DisconnectedInit AwaitLaunch] = [DisconnectedInit AwaitLaunch]"
    by simp
  have "variables (resume_handler (\<lambda>_. failing_env) 0 ?w) = absent
     \<and> handlers (resume_handler (\<lambda>_. failing_env) 0 ?w)
         = (handlers ?w)[0 := DisconnectedInit AwaitLaunch]
     \<and> result (on_disconnected failing_env live) = Inr ()
     \<and> state_after (on_disconnected failing_env live) = absent
     \<and> (\<exists>e. ConsoleError (ascii ''Error launching browser:'') e
            \<in> set (trace (on_disconnected failing_env live)))"
    using m f l
      disconnect_restarts [where i = 0 and envs = "\<lambda>_. failing_env" and env = failing_env
        and s = live and pc = AwaitLaunch and w = ?w]
    by blast
  then show ?thesis
    using m f l u by presburger
qed

section \<open>The actions of each part of a fetch\<close>

lemma navigate_actions:
  "a \<in> set (trace (navigate env u s)) \<Longrightarrow>
     \<exists>p. a = SetDefaultNavigationTimeout p 60000 \<or> a = SetDefaultTimeout p 60000
         \<or> a = Goto p u 60000"
  by (auto simp add: navigate_def out_simps split: sum.splits option.splits)

lemma navigate_page: "result (navigate env u s) = Inr x \<Longrightarrow> browserPage s \<noteq> None"
  by (auto simp add: navigate_def out_simps split: option.splits)

lemma navigate_goto:
  "Goto p u' t \<in> set (trace (navigate env u s)) \<Longrightarrow>
     browserPage s = Some p \<and> u' = u \<and> result (navigate env u s) = opt (page_goto env p u)"
  by (auto simp add: navigate_def out_simps split: option.splits sum.splits)

lemma wait_ready_actions:
  "a \<in> set (trace (wait_ready env w s)) \<Longrightarrow>
     (\<exists>ws. a = AwaitAll ws) \<or> a = Sleep 2000 \<or> (\<exists>t. a = Waited t)"
  by (auto simp add: wait_ready_def out_simps split: sum.splits option.splits settled.splits)

lemma wait_selector_actions:
  "a \<in> set (trace (wait_selector env sel s)) \<Longrightarrow>
     (\<exists>p x t. a = WaitForSelector p x t) \<or> (\<exists>m. a = ConsoleWarn m)"
  by (auto simp add: wait_selector_def out_simps split: sum.splits option.splits if_splits)

lemma wait_selector_result: "result (wait_selector env sel s) = Inr ()"
  by (auto simp add: wait_selector_def out_simps split: sum.splits option.splits)

lemma check_loaded_actions:
  "a \<in> set (trace (check_loaded env s)) \<Longrightarrow>
     (\<exists>p. a = IsPageLoaded p) \<or> (\<exists>m. a = ConsoleWarn m) \<or> a = Sleep 5000
       \<or> (\<exists>t. a = Waited t)"
  by (auto simp add: check_loaded_def out_simps split: sum.splits option.splits if_splits)

lemma get_html_actions: "a \<in> set (trace (get_html env sel s)) \<Longrightarrow> is_extraction a"
  by (auto simp add: get_html_def full_page_def out_simps
      split: sum.splits option.splits if_splits)

lemma get_html_result:
  "result (get_html env sel s) = Inr html \<Longrightarrow>
     \<exists>p. page_content env p = Inr html \<or> (\<exists>el. page_outerHTML env p el = Inr html)"
  by (auto simp add: get_html_def full_page_def out_simps
      split: sum.splits option.splits if_splits)

lemma get_html_retrieved:
  "result (get_html env sel s) = Inr html \<Longrightarrow>
     \<exists>p. browserPage s = Some p
       \<and> ((Content p \<in> set (trace (get_html env sel s)) \<and> page_content env p = Inr html)
          \<or> (\<exists>el. OuterHTML p el \<in> set (trace (get_html env sel s))
                \<and> page_outerHTML env p el = Inr html))"
  by (fastforce simp add: get_html_def full_page_def out_simps
      split: sum.splits option.splits if_splits)

lemma convert_result:
  "result (convert env u html s) = Inr r \<Longrightarrow>
     \<exists>md t. r = Response 200 [(''url'', u), (''markdown'', md), (''title'', t)]
       \<and> turndown env (sanitizeHtml html) = Inr md
       \<and> Turndown (sanitizeHtml html) \<in> set (trace (convert env u html s))"
  by (auto simp add: convert_def out_simps Let_def split: sum.splits option.splits)

lemma convert_actions:
  "a \<in> set (trace (convert env u html s)) \<Longrightarrow>
     a = Turndown (sanitizeHtml html) \<or> (\<exists>p. a = Title p)"
  by (auto simp add: convert_def out_simps Let_def split: sum.splits option.splits)

lemma lifecycle_not_extraction: "lifecycle_action a \<Longrightarrow> \<not> is_extraction a"
  by (cases a) (simp_all add: lifecycle_action_def)

lemma ensureLive_result:
  "result (ensureLive env s) = Inr True \<or> result (ensureLive env s) = Inr False"
  using initBrowser_result [of env s] by (simp add: ensureLive_def out_simps)

lemma no_extraction_before:
  "\<forall>a\<in>set (trace (ensureLive env s)). \<not> is_extraction a"
  "\<forall>a\<in>set (trace (ensure_page env s)). \<not> is_extraction a"
  "\<forall>a\<in>set (trace (navigate env u s)). \<not> is_extraction a"
  "\<forall>a\<in>set (trace (wait_ready env w s)). \<not> is_extraction a"
  "\<forall>a\<in>set (trace (wait_selector env sel s)). \<not> is_extraction a"
  "\<forall>a\<in>set (trace (check_loaded env s)). \<not> is_extraction a"
  by (auto dest!: ensureLive_actions ensure_page_actions navigate_actions wait_ready_actions
      wait_selector_actions check_loaded_actions lifecycle_not_extraction)


section \<open>The trace of a fetch, by how far it gets\<close>

lemma takeWhile_skip: "\<forall>a\<in>set xs. P a \<Longrightarrow> takeWhile P (xs @ ys) = xs @ takeWhile P ys"
  by (simp add: takeWhile_append2)

lemmas skip_no_extraction = no_extraction_before [THEN takeWhile_skip]

lemmas fetch_unfold = get_markdown_def get_markdown_try_def get_markdown_catch_def out_simps
  phase_state Let_def requested_wait_def [symmetric]

lemma fetch_trace_no_url:
  "\<not> truthy (url req) \<Longrightarrow> trace (get_markdown env req s) = []"
  by (simp add: fetch_unfold)

lemma fetch_trace_bad_url:
  "truthy (url req) \<Longrightarrow> sanitizeUrl env (the (url req)) = Inl e \<Longrightarrow>
     trace (get_markdown env req s) = [ConsoleError (ascii ''Error fetching page:'') e]"
  by (simp add: fetch_unfold)

lemma fetch_trace_not_live:
  "truthy (url req) \<Longrightarrow> sanitizeUrl env (the (url req)) = Inr u \<Longrightarrow>
   result (ensureLive env s) = Inr False \<Longrightarrow>
     trace (get_markdown env req s) = trace (ensureLive env s)"
  by (simp add: fetch_unfold)

lemma fetch_trace_no_page:
  "truthy (url req) \<Longrightarrow> sanitizeUrl env (the (url req)) = Inr u \<Longrightarrow>
   result (ensureLive env s) = Inr True \<Longrightarrow>
   result (ensure_page env (state_after (ensureLive env s))) = Inl e \<Longrightarrow>
     trace (get_markdown env req s)
       = trace (ensureLive env s) @ trace (ensure_page env (state_after (ensureLive env s)))
         @ [ConsoleError (ascii ''Error fetching page:'') e]"
  by (simp add: fetch_unfold)

lemma fetch_trace_navigation_failed:
  "truthy (url req) \<Longrightarrow> sanitizeUrl env (the (url req)) = Inr u \<Longrightarrow>
   result (ensureLive env s) = Inr True \<Longrightarrow>
   result (ensure_page env (state_after (ensureLive env s))) = Inr () \<Longrightarrow>
   result (navigate env u (state_after (ensure_page env (state_after (ensureLive env s)))))
     = Inl e \<Longrightarrow>
     trace (get_markdown env req s)
       = trace (ensureLive env s) @ trace (ensure_page env (state_after (ensureLive env s)))
         @ trace (navigate env u (state_after (ensure_page env (state_after (ensureLive env s)))))
         @ [ConsoleError (ascii ''Error fetching page:'') e]"
  by (simp add: fetch_unfold)

lemma fetch_trace_wait_failed:
  "truthy (url req) \<Longrightarrow> sanitizeUrl env (the (url req)) = Inr u \<Longrightarrow>
   result (ensureLive env s) = Inr True \<Longrightarrow>
   result (ensure_page env (state_after (ensureLive env s))) = Inr () \<Longrightarrow>
   result (navigate env u (state_after (ensure_page env (state_after (ensureLive env s)))))
     = Inr () \<Longrightarrow>
   result (wait_ready env (requested_wait req)
            (state_after (ensure_page env (state_after (ensureLive env s))))) = Inl e \<Longrightarrow>
     trace (get_markdown env req s)
       = trace (ensureLive env s) @ trace (ensure_page env (state_after (ensureLive env s)))
         @ trace (navigate env u (state_after (ensure_page env (state_after (ensureLive env s)))))
         @ trace (wait_ready env (requested_wait req)
                    (state_after (ensure_page env (state_after (ensureLive env s)))))
         @ [ConsoleError (ascii ''Error fetching page:'') e]"
  by (simp add: fetch_unfold)

lemma fetch_trace_ready:
  "truthy (url req) \<Longrightarrow> sanitizeUrl env (the (url req)) = Inr u \<Longrightarrow>
   result (ensureLive env s) = Inr True \<Longrightarrow>
   result (ensure_page env (state_after (ensureLive env s))) = Inr () \<Longrightarrow>
   result (navigate env u (state_after (ensure_page env (state_after (ensureLive env s)))))
     = Inr () \<Longrightarrow>
   result (wait_ready env (requested_wait req)
            (state_after (ensure_page env (state_after (ensureLive env s))))) = Inr () \<Longrightarrow>
     trace (get_markdown env req s)
       = trace (ensureLive env s) @ trace (ensure_page env (state_after (ensureLive env s)))
         @ trace (navigate env u (state_after (ensure_page env (state_after (ensureLive env s)))))
         @ trace (wait_ready env (requested_wait req)
                    (state_after (ensure_page env (state_after (ensureLive env s)))))
         @ trace (try_catch
                    (bnd (wait_selector env (selector req)) (\<lambda>_.
                     bnd (check_loaded env) (\<lambda>_.
                     bnd (get_html env (selector req)) (\<lambda>html.
                     convert env u html))))
                    get_markdown_catch
                    (state_after (ensure_page env (state_after (ensureLive env s)))))"
  by (simp add: fetch_unfold wait_selector_result split: sum.splits)

lemma extraction_not_navigation:
  "is_extraction a \<Longrightarrow> \<not> is_navigation a \<and> (\<forall>ws. a \<noteq> AwaitAll ws)"
  by (cases a) simp_all

lemma after_ready_actions:
  "a \<in> set (trace (try_catch
                    (bnd (wait_selector env sel) (\<lambda>_.
                     bnd (check_loaded env) (\<lambda>_.
                     bnd (get_html env sel) (\<lambda>html.
                     convert env u html))))
                    get_markdown_catch s)) \<Longrightarrow>
     \<not> is_navigation a \<and> (\<forall>ws. a \<noteq> AwaitAll ws)"
  apply (simp add: get_markdown_catch_def out_simps phase_state split: sum.splits)
  apply (auto dest!: wait_selector_actions check_loaded_actions get_html_actions convert_actions
      extraction_not_navigation)
  done

lemma fetch_reaches_page:
  assumes a: "a \<in> set (trace (get_markdown env req s))" and nl: "\<not> lifecycle_action a"
  shows "\<exists>u. truthy (url req) \<and> sanitizeUrl env (the (url req)) = Inr u
           \<and> result (ensureLive env s) = Inr True
           \<and> result (ensure_page env (state_after (ensureLive env s))) = Inr ()"
proof -
  let ?s0 = "state_after (ensureLive env s)"
  have tu: "truthy (url req)"
  proof (rule ccontr)
    assume "\<not> truthy (url req)"
    then have "trace (get_markdown env req s) = []"
      by (rule fetch_trace_no_url)
    with a show False by simp
  qed
  obtain u where u: "sanitizeUrl env (the (url req)) = Inr u"
  proof (cases "sanitizeUrl env (the (url req))")
    case (Inl e)
    with a nl fetch_trace_bad_url [OF tu Inl, of s] have False
      by (auto simp add: lifecycle_action_def)
    then show ?thesis ..
  next
    case (Inr v)
    then show ?thesis using that by blast
  qed
  have live: "result (ensureLive env s) = Inr True"
  proof (rule ccontr)
    assume "result (ensureLive env s) \<noteq> Inr True"
    with ensureLive_result [of env s] have "result (ensureLive env s) = Inr False"
      by blast
    from fetch_trace_not_live [OF tu u this] a nl show False
      by (auto dest!: ensureLive_actions)
  qed
  have pg: "result (ensure_page env ?s0) = Inr ()"
  proof (cases "result (ensure_page env ?s0)")
    case (Inl e)
    from fetch_trace_no_page [OF tu u live Inl] a nl have False
      by (auto dest!: ensureLive_actions ensure_page_actions simp add: lifecycle_action_def)
    then show ?thesis ..
  next
    case (Inr v)
    then show ?thesis by simp
  qed
  from tu u live pg show ?thesis by blast
qed

lemma after_ready_trace:
  "result (check_loaded env s) = Inr () \<Longrightarrow> result (get_html env sel s) = Inr html \<Longrightarrow>
   result (convert env u html s) = Inr r \<Longrightarrow>
     trace (try_catch
              (bnd (wait_selector env sel) (\<lambda>_.
               bnd (check_loaded env) (\<lambda>_.
               bnd (get_html env sel) (\<lambda>html.
               convert env u html))))
              get_markdown_catch s)
       = trace (wait_selector env sel s) @ trace (check_loaded env s)
         @ trace (get_html env sel s) @ trace (convert env u html s)"
  by (simp add: out_simps phase_state wait_selector_result)

lemma fetch_200_phases:
  assumes r: "result (get_markdown env req s) = Inr (Response 200 body)"
  shows "\<exists>u html. truthy (url req) \<and> sanitizeUrl env (the (url req)) = Inr u
           \<and> result (ensureLive env s) = Inr True
           \<and> result (ensure_page env (state_after (ensureLive env s))) = Inr ()
           \<and> result (navigate env u (state_after (ensure_page env (state_after (ensureLive env s)))))
               = Inr ()
           \<and> result (wait_ready env (requested_wait req)
                       (state_after (ensure_page env (state_after (ensureLive env s))))) = Inr ()
           \<and> result (check_loaded env
                       (state_after (ensure_page env (state_after (ensureLive env s))))) = Inr ()
           \<and> result (get_html env (selector req)
                       (state_after (ensure_page env (state_after (ensureLive env s))))) = Inr html
           \<and> result (convert env u html
                       (state_after (ensure_page env (state_after (ensureLive env s)))))
               = Inr (Response 200 body)"
  using r
  by (simp add: fetch_unfold wait_selector_result split: sum.splits if_splits)

lemma fetch_answers_200:
  assumes r: "result (get_markdown env req s) = Inr (Response 200 body)"
  shows "\<exists>u html s1.
           result (get_html env (selector req) s1) = Inr html
           \<and> result (convert env u html s1) = Inr (Response 200 body)
           \<and> set (trace (get_html env (selector req) s1)) \<subseteq> set (trace (get_markdown env req s))
           \<and> set (trace (convert env u html s1)) \<subseteq> set (trace (get_markdown env req s))"
proof -
  let ?s1 = "state_after (ensure_page env (state_after (ensureLive env s)))"
  from fetch_200_phases [OF r] obtain u html where
    tu: "truthy (url req)" and u: "sanitizeUrl env (the (url req)) = Inr u" and
    live: "result (ensureLive env s) = Inr True" and
    pg: "result (ensure_page env (state_after (ensureLive env s))) = Inr ()" and
    nav: "result (navigate env u ?s1) = Inr ()" and
    rdy: "result (wait_ready env (requested_wait req) ?s1) = Inr ()" and
    chk: "result (check_loaded env ?s1) = Inr ()" and
    h: "result (get_html env (selector req) ?s1) = Inr html" and
    c: "result (convert env u html ?s1) = Inr (Response 200 body)"
    by blast
  have "set (trace (get_html env (selector req) ?s1)) \<subseteq> set (trace (get_markdown env req s))"
    "set (trace (convert env u html ?s1)) \<subseteq> set (trace (get_markdown env req s))"
    by (auto simp add: fetch_trace_ready [OF tu u live pg nav rdy] after_ready_trace [OF chk h c])
  with h c show ?thesis
    by blast
qed

section \<open>The converter receives sanitized markup\<close>

lemma turndown_argument:
  "Turndown x \<in> set (trace (get_markdown env req s)) \<Longrightarrow>
     \<exists>html p. x = sanitizeHtml html
       \<and> (page_content env p = Inr html \<or> (\<exists>el. page_outerHTML env p el = Inr html))"
  apply (simp add: get_markdown_def get_markdown_try_def get_markdown_catch_def out_simps
      phase_state Let_def split: sum.splits if_splits)
  apply (auto dest!: ensureLive_actions ensure_page_actions navigate_actions wait_ready_actions
      wait_selector_actions check_loaded_actions get_html_actions convert_actions
      dest: get_html_result [OF sym] get_html_result simp add: lifecycle_action_def)
  done

lemma answer_is_sanitized:
  assumes r: "result (get_markdown env req s) = Inr (Response 200 body)"
  shows "\<exists>html p u md t.
           ((Content p \<in> set (trace (get_markdown env req s)) \<and> page_content env p = Inr html)
            \<or> (\<exists>el. OuterHTML p el \<in> set (trace (get_markdown env req s))
                  \<and> page_outerHTML env p el = Inr html))
           \<and> Turndown (sanitizeHtml html) \<in> set (trace (get_markdown env req s))
           \<and> turndown env (sanitizeHtml html) = Inr md
           \<and> body = [(''url'', u), (''markdown'', md), (''title'', t)]"
proof -
  from fetch_answers_200 [OF r] obtain u html s1 where
    h: "result (get_html env (selector req) s1) = Inr html" and
    c: "result (convert env u html s1) = Inr (Response 200 body)" and
    th: "set (trace (get_html env (selector req) s1)) \<subseteq> set (trace (get_markdown env req s))" and
    tc: "set (trace (convert env u html s1)) \<subseteq> set (trace (get_markdown env req s))"
    by blast
  from get_html_retrieved [OF h] obtain p where
    p: "(Content p \<in> set (trace (get_html env (selector req) s1)) \<and> page_content env p = Inr html)
          \<or> (\<exists>el. OuterHTML p el \<in> set (trace (get_html env (selector req) s1))
                \<and> page_outerHTML env p el = Inr html)"
    by blast
  from convert_result [OF c] obtain md t where
    b: "body = [(''url'', u), (''markdown'', md), (''title'', t)]" and
    m: "turndown env (sanitizeHtml html) = Inr md" and
    x: "Turndown (sanitizeHtml html) \<in> set (trace (convert env u html s1))"
    by auto
  from p th have "(Content p \<in> set (trace (get_markdown env req s)) \<and> page_content env p = Inr html)
            \<or> (\<exists>el. OuterHTML p el \<in> set (trace (get_markdown env req s))
                  \<and> page_outerHTML env p el = Inr html)"
    by blast
  moreover from x tc have "Turndown (sanitizeHtml html) \<in> set (trace (get_markdown env req s))"
    by blast
  ultimately show ?thesis
    using m b by blast
qed

text \<open>
  C4: \<^verbatim>\<open>sanitizeHtml\<close> computes what the specification describes: every NUL is
  removed, every U+2028 and U+2029 becomes one space, every other code unit is kept in
  place. It is applied before conversion: whatever a fetch hands to the Markdown
  converter is the sanitized form of markup it retrieved from the page (the full
  document or the selected element), and the Markdown of every successful answer is what
  the converter makes of the sanitized form of the markup the fetch retrieved.
\<close>

theorem sanitizeHtml_spec:
  "sanitizeHtml html = spec_sanitize html
   \<and> (Turndown x \<in> set (trace (get_markdown env req s)) \<longrightarrow>
        (\<exists>html' p. x = sanitizeHtml html'
           \<and> (page_content env p = Inr html' \<or> (\<exists>el. page_outerHTML env p el = Inr html'))))
   \<and> (result (get_markdown env req s) = Inr (Response 200 body) \<longrightarrow>
        (\<exists>html' p u md t.
           ((Content p \<in> set (trace (get_markdown env req s)) \<and> page_content env p = Inr html')
            \<or> (\<exists>el. OuterHTML p el \<in> set (trace (get_markdown env req s))
                  \<and> page_outerHTML env p el = Inr html'))
           \<and> Turndown (sanitizeHtml html') \<in> set (trace (get_markdown env req s))
           \<and> turndown env (sanitizeHtml html') = Inr md
           \<and> body = [(''url'', u), (''markdown'', md), (''title'', t)]))"
proof -
  have "sanitizeHtml html = spec_sanitize html"
    by (induction html) (simp_all add: sanitizeHtml_def strip_nul_def replace_separators_def)
  then show ?thesis
    using turndown_argument [of x env req s] answer_is_sanitized [of env req s body] by blast
qed

text \<open>
  The witness: a page whose markup is \<open>a\<close>, NUL, U+2028, \<open>b\<close> and a converter that
  returns its argument; the answer's Markdown is \<open>a b\<close>.
\<close>

theorem sanitizeHtml_spec_witness:
  "sanitizeHtml (ascii ''a'' @ [0, 0x2028] @ ascii ''b'') = ascii ''a b''
   \<and> Turndown (ascii ''a b'') \<in> set (trace (get_markdown dirty_env example_request live))
   \<and> result (get_markdown dirty_env example_request live)
       = Inr (Response 200 [(''url'', ascii ''https://example.com/''),
                            (''markdown'', ascii ''a b''),
                            (''title'', ascii ''Example Domain'')])
   \<and> (\<exists>html' p u md t.
         ((Content p \<in> set (trace (get_markdown dirty_env example_request live))
             \<and> page_content dirty_env p = Inr html')
          \<or> (\<exists>el. OuterHTML p el \<in> set (trace (get_markdown dirty_env example_request live))
                \<and> page_outerHTML dirty_env p el = Inr html'))
         \<and> Turndown (sanitizeHtml html') \<in> set (trace (get_markdown dirty_env example_request live))
         \<and> turndown dirty_env (sanitizeHtml html') = Inr md
         \<and> [(''url'', ascii ''https://example.com/''), (''markdown'', ascii ''a b''),
             (''title'', ascii ''Example Domain'')]
           = [(''url'', u), (''markdown'', md), (''title'', t)])
   \<and> (\<exists>html' p. ascii ''a b'' = sanitizeHtml html'
         \<and> (page_content dirty_env p = Inr html'
             \<or> (\<exists>el. page_outerHTML dirty_env p el = Inr html')))"
proof -
  have z: "sanitizeHtml (ascii ''a'' @ [0, 0x2028] @ ascii ''b'') = ascii ''a b''"
    by (simp add: sanitizeHtml_def strip_nul_def replace_separators_def ascii_def)
  have t: "Turndown (ascii ''a b'') \<in> set (trace (get_markdown dirty_env example_request live))"
    by (simp add: fetch_defs out_simps example_defs truthy_def opt_def ascii_def Let_def
        sanitizeHtml_def strip_nul_def replace_separators_def)
  have r: "result (get_markdown dirty_env example_request live)
       = Inr (Response 200 [(''url'', ascii ''https://example.com/''),
                            (''markdown'', ascii ''a b''),
                            (''title'', ascii ''Example Domain'')])"
    by (simp add: fetch_defs out_simps example_defs truthy_def opt_def ascii_def Let_def
        sanitizeHtml_def strip_nul_def replace_separators_def)
  show ?thesis
    using z t r
      sanitizeHtml_spec [where html = "[]" and x = "ascii ''a b''" and env = dirty_env
        and req = example_request and s = live
        and body = "[(''url'', ascii ''https://example.com/''), (''markdown'', ascii ''a b''),
                     (''title'', ascii ''Example Domain'')]"]
    by blast
qed

section \<open>Selectors that do not match\<close>

lemma waitForSelector_only_in_wait_selector:
  "ensureLive (env\<lparr>page_waitForSelector := f\<rparr>) = ensureLive env"
  "ensure_page (env\<lparr>page_waitForSelector := f\<rparr>) = ensure_page env"
  "navigate (env\<lparr>page_waitForSelector := f\<rparr>) = navigate env"
  "wait_ready (env\<lparr>page_waitForSelector := f\<rparr>) = wait_ready env"
  "check_loaded (env\<lparr>page_waitForSelector := f\<rparr>) = check_loaded env"
  "get_html (env\<lparr>page_waitForSelector := f\<rparr>) = get_html env"
  "convert (env\<lparr>page_waitForSelector := f\<rparr>) = convert env"
  "sanitizeUrl (env\<lparr>page_waitForSelector := f\<rparr>) = sanitizeUrl env"
  by (simp_all add: fun_eq_iff fetch_defs init_defs cong: if_cong)

lemma get_html_no_match:
  "\<forall>p. page_query env p sel = Inr None \<Longrightarrow> browserPage s \<noteq> None \<Longrightarrow>
     result (get_html env (Some sel) s) = result (get_html env None s)"
  by (auto simp add: get_html_def full_page_def out_simps truthy_def split: option.splits)

lemma wait_outcome_irrelevant:
  "result (get_markdown (env\<lparr>page_waitForSelector := f\<rparr>) req s)
     = result (get_markdown env req s)
   \<and> state_after (get_markdown (env\<lparr>page_waitForSelector := f\<rparr>) req s)
     = state_after (get_markdown env req s)"
  by (simp add: get_markdown_def get_markdown_try_def get_markdown_catch_def out_simps
      phase_state waitForSelector_only_in_wait_selector wait_selector_result Let_def
      split: sum.splits if_splits)

lemma no_match_falls_back:
  "selector req = Some sel \<Longrightarrow> \<forall>p. page_query env p sel = Inr None \<Longrightarrow>
     result (get_markdown env req s) = result (get_markdown env (req\<lparr>selector := None\<rparr>) s)
     \<and> state_after (get_markdown env req s)
       = state_after (get_markdown env (req\<lparr>selector := None\<rparr>) s)"
  apply (simp add: get_markdown_def get_markdown_try_def get_markdown_catch_def out_simps
      phase_state wait_selector_result Let_def split: sum.splits if_splits)
  apply (auto dest!: navigate_page navigate_page [OF sym] simp add: get_html_no_match)
  done

lemma wait_selector_timeout:
  "sel \<noteq> [] \<Longrightarrow> browserPage s = Some p \<Longrightarrow> page_waitForSelector env p sel = Some e \<Longrightarrow>
     wait_selector env (Some sel) s
       = (Inr (), s,
          [WaitForSelector p sel 10000,
           ConsoleWarn (ascii ''Selector '' @ dquote @ sel @ dquote
                        @ ascii '' not found or not visible, continuing anyway'')])"
  by (simp add: wait_selector_def io_defs truthy_def)

lemma get_html_fallback:
  "sel \<noteq> [] \<Longrightarrow> browserPage s = Some p \<Longrightarrow> page_query env p sel = Inr None \<Longrightarrow>
     get_html env (Some sel) s = (page_content env p, s, [Query p sel, Content p])"
  by (simp add: get_html_def full_page_def io_defs truthy_def split: sum.splits)

lemma selector_fetch_run:
  assumes "browser s = Some h" "browserPage s = Some p"
    and "url req = Some raw" "raw \<noteq> []" "new_URL env raw = Some u"
    and "selector req = Some sel" "sel \<noteq> []"
    and "page_goto env p u = None"
    and "page_waitForNetworkIdle env p = Fulfilled tn" "page_documentComplete env p = Fulfilled td"
    and "page_waitForSelector env p sel = Some e"
    and "page_isPageLoaded env p = Inr True"
    and "page_query env p sel = Inr None" "page_content env p = Inr html"
    and "turndown env (sanitizeHtml html) = Inr md" "page_title env p = Inr t"
  shows "get_markdown env req s
     = (Inr (Response 200 [(''url'', u), (''markdown'', md), (''title'', t)]), s,
        [SetDefaultNavigationTimeout p 60000, SetDefaultTimeout p 60000, Goto p u 60000,
         AwaitAll [NetworkIdle p 60000 5000, DocumentComplete p, Delay (requested_wait req)],
         Waited (max tn (max td (timer env (requested_wait req)))),
         Sleep 2000, Waited (timer env 2000),
         WaitForSelector p sel 10000,
         ConsoleWarn (ascii ''Selector '' @ dquote @ sel @ dquote
                      @ ascii '' not found or not visible, continuing anyway''),
         IsPageLoaded p, Query p sel, Content p, Turndown (sanitizeHtml html), Title p])"
  using assms by (simp add: fetch_defs io_defs truthy_def Let_def)

text \<open>
  C8: for a fetch with a selector, a wait for the selector that fails (it is given
  10 seconds) is caught: it leaves a warning in the log and nothing else, so the outcome
  of the wait has no influence on the answer of the fetch or on the session. When no
  element matches the selector at extraction time, the markup of the full document is
  retrieved, and the fetch answers exactly what the same request without a selector
  answers. In particular (last part), a fetch on a live session whose navigation and
  readiness wait succeed, whose selector wait fails and whose selector matches nothing
  goes on after the failed wait to the load check, retrieves the markup of the full
  document, converts it and answers 200 with that Markdown.
\<close>

theorem selector_fallback:
  "(selector req = Some sel \<and> sel \<noteq> [] \<and> browserPage s = Some p
      \<and> page_waitForSelector env p sel = Some e \<longrightarrow>
      wait_selector env (selector req) s
        = (Inr (), s,
           [WaitForSelector p sel 10000,
            ConsoleWarn (ascii ''Selector '' @ dquote @ sel @ dquote
                         @ ascii '' not found or not visible, continuing anyway'')]))
   \<and> result (get_markdown (env\<lparr>page_waitForSelector := f\<rparr>) req s)
       = result (get_markdown env req s)
   \<and> state_after (get_markdown (env\<lparr>page_waitForSelector := f\<rparr>) req s)
       = state_after (get_markdown env req s)
   \<and> (selector req = Some sel \<and> sel \<noteq> [] \<and> browserPage s = Some p
        \<and> page_query env p sel = Inr None \<longrightarrow>
        get_html env (selector req) s = (page_content env p, s, [Query p sel, Content p]))
   \<and> (selector req = Some sel \<and> (\<forall>p. page_query env p sel = Inr None) \<longrightarrow>
        result (get_markdown env req s)
          = result (get_markdown env (req\<lparr>selector := None\<rparr>) s)
        \<and> state_after (get_markdown env req s)
          = state_after (get_markdown env (req\<lparr>selector := None\<rparr>) s))
   \<and> (browser s = Some h \<and> browserPage s = Some p
        \<and> url req = Some raw \<and> raw \<noteq> [] \<and> new_URL env raw = Some u
        \<and> selector req = Some sel \<and> sel \<noteq> []
        \<and> page_goto env p u = None
        \<and> page_waitForNetworkIdle env p = Fulfilled tn
        \<and> page_documentComplete env p = Fulfilled td
        \<and> page_waitForSelector env p sel = Some e
        \<and> page_isPageLoaded env p = Inr True
        \<and> page_query env p sel = Inr None \<and> page_content env p = Inr html
        \<and> turndown env (sanitizeHtml html) = Inr md \<and> page_title env p = Inr t \<longrightarrow>
        get_markdown env req s
          = (Inr (Response 200 [(''url'', u), (''markdown'', md), (''title'', t)]), s,
             [SetDefaultNavigationTimeout p 60000, SetDefaultTimeout p 60000, Goto p u 60000,
              AwaitAll [NetworkIdle p 60000 5000, DocumentComplete p, Delay (requested_wait req)],
              Waited (max tn (max td (timer env (requested_wait req)))),
              Sleep 2000, Waited (timer env 2000),
              WaitForSelector p sel 10000,
              ConsoleWarn (ascii ''Selector '' @ dquote @ sel @ dquote
                           @ ascii '' not found or not visible, continuing anyway''),
              IsPageLoaded p, Query p sel, Content p, Turndown (sanitizeHtml html), Title p]))"
proof -
  have run: "browser s = Some h \<and> browserPage s = Some p
        \<and> url req = Some raw \<and> raw \<noteq> [] \<and> new_URL env raw = Some u
        \<and> selector req = Some sel \<and> sel \<noteq> []
        \<and> page_goto env p u = None
        \<and> page_waitForNetworkIdle env p = Fulfilled tn
        \<and> page_documentComplete env p = Fulfilled td
        \<and> page_waitForSelector env p sel = Some e
        \<and> page_isPageLoaded env p = Inr True
        \<and> page_query env p sel = Inr None \<and> page_content env p = Inr html
        \<and> turndown env (sanitizeHtml html) = Inr md \<and> page_title env p = Inr t \<longrightarrow>
        get_markdown env req s
          = (Inr (Response 200 [(''url'', u), (''markdown'', md), (''title'', t)]), s,
             [SetDefaultNavigationTimeout p 60000, SetDefaultTimeout p 60000, Goto p u 60000,
              AwaitAll [NetworkIdle p 60000 5000, DocumentComplete p, Delay (requested_wait req)],
              Waited (max tn (max td (timer env (requested_wait req)))),
              Sleep 2000, Waited (timer env 2000),
              WaitForSelector p sel 10000,
              ConsoleWarn (ascii ''Selector '' @ dquote @ sel @ dquote
                           @ ascii '' not found or not visible, continuing anyway''),
              IsPageLoaded p, Query p sel, Content p, Turndown (sanitizeHtml html), Title p])"
    using selector_fetch_run [where s = s and h = h and p = p and req = req and raw = raw
        and env = env and u = u and sel = sel and tn = tn and td = td and e = e
        and html = html and md = md and t = t]
    by blast
  have parts: "(selector req = Some sel \<and> sel \<noteq> [] \<and> browserPage s = Some p
      \<and> page_waitForSelector env p sel = Some e \<longrightarrow>
      wait_selector env (selector req) s
        = (Inr (), s,
           [WaitForSelector p sel 10000,
            ConsoleWarn (ascii ''Selector '' @ dquote @ sel @ dquote
                         @ ascii '' not found or not visible, continuing anyway'')]))
   \<and> result (get_markdown (env\<lparr>page_waitForSelector := f\<rparr>) req s)
       = result (get_markdown env req s)
   \<and> state_after (get_markdown (env\<lparr>page_waitForSelector := f\<rparr>) req s)
       = state_after (get_markdown env req s)
   \<and> (selector req = Some sel \<and> sel \<noteq> [] \<and> browserPage s = Some p
        \<and> page_query env p sel = Inr None \<longrightarrow>
        get_html env (selector req) s = (page_content env p, s, [Query p sel, Content p]))
   \<and> (selector req = Some sel \<and> (\<forall>p. page_query env p sel = Inr None) \<longrightarrow>
        result (get_markdown env req s)
          = result (get_markdown env (req\<lparr>selector := None\<rparr>) s)
        \<and> state_after (get_markdown env req s)
          = state_after (get_markdown env (req\<lparr>selector := None\<rparr>) s))"
    using wait_outcome_irrelevant [where env = env and f = f and req = req and s = s]
      no_match_falls_back [where req = req and sel = sel and env = env and s = s]
      wait_selector_timeout [where sel = sel and s = s and p = p and env = env and e = e]
      get_html_fallback [where sel = sel and s = s and p = p and env = env]
    by auto
  from parts run show ?thesis
    by (intro conjI) blast+
qed

theorem selector_fallback_witness:
  "selector (example_request\<lparr>selector := Some (ascii ''h1'')\<rparr>) = Some (ascii ''h1'')
   \<and> ascii ''h1'' \<noteq> []
   \<and> browser live = Some 1 \<and> browserPage live = Some 1
   \<and> url (example_request\<lparr>selector := Some (ascii ''h1'')\<rparr>) = Some (ascii ''https://example.com'')
   \<and> ascii ''https://example.com'' \<noteq> []
   \<and> new_URL example_env (ascii ''https://example.com'') = Some (ascii ''https://example.com/'')
   \<and> page_goto example_env 1 (ascii ''https://example.com/'') = None
   \<and> page_waitForNetworkIdle example_env 1 = Fulfilled 5000
   \<and> page_documentComplete example_env 1 = Fulfilled 0
   \<and> page_waitForSelector example_env 1 (ascii ''h1'')
       = Some (Error (ascii ''Waiting for selector failed''))
   \<and> page_isPageLoaded example_env 1 = Inr True
   \<and> page_query example_env 1 (ascii ''h1'') = Inr None
   \<and> (\<forall>p. page_query example_env p (ascii ''h1'') = Inr None)
   \<and> page_content example_env 1 = Inr (ascii ''<html><h1>Example Domain</h1></html>'')
   \<and> turndown example_env (sanitizeHtml (ascii ''<html><h1>Example Domain</h1></html>''))
       = Inr (ascii ''# Example Domain'')
   \<and> page_title example_env 1 = Inr (ascii ''Example Domain'')
   \<and> wait_selector example_env (Some (ascii ''h1'')) live
       = (Inr (), live,
          [WaitForSelector 1 (ascii ''h1'') 10000,
           ConsoleWarn (ascii ''Selector '' @ dquote @ ascii ''h1'' @ dquote
                        @ ascii '' not found or not visible, continuing anyway'')])
   \<and> get_html example_env (Some (ascii ''h1'')) live
       = (page_content example_env 1, live, [Query 1 (ascii ''h1''), Content 1])
   \<and> result (get_markdown example_env (example_request\<lparr>selector := Some (ascii ''h1'')\<rparr>) live)
       = result (get_markdown example_env example_request live)
   \<and> get_markdown example_env (example_request\<lparr>selector := Some (ascii ''h1'')\<rparr>) live
       = (Inr (Response 200 [(''url'', ascii ''https://example.com/''),
                             (''markdown'', ascii ''# Example Domain''),
                             (''title'', ascii ''Example Domain'')]), live,
          [SetDefaultNavigationTimeout 1 60000, SetDefaultTimeout 1 60000,
           Goto 1 (ascii ''https://example.com/'') 60000,
           AwaitAll [NetworkIdle 1 60000 5000, DocumentComplete 1, Delay 2000],
           Waited 5000, Sleep 2000, Waited 2000,
           WaitForSelector 1 (ascii ''h1'') 10000,
           ConsoleWarn (ascii ''Selector '' @ dquote @ ascii ''h1'' @ dquote
                        @ ascii '' not found or not visible, continuing anyway''),
           IsPageLoaded 1, Query 1 (ascii ''h1''), Content 1,
           Turndown (sanitizeHtml (ascii ''<html><h1>Example Domain</h1></html>'')), Title 1])"
proof -
  let ?req = "example_request\<lparr>selector := Some (ascii ''h1'')\<rparr>"
  let ?html = "ascii ''<html><h1>Example Domain</h1></html>''"
  have n: "ascii ''h1'' \<noteq> []" "ascii ''https://example.com'' \<noteq> []"
    by (simp_all add: ascii_def)
  have b: "browser live = Some 1" "browserPage live = Some 1"
    by (simp_all add: live_def)
  have q: "selector ?req = Some (ascii ''h1'')" "url ?req = Some (ascii ''https://example.com'')"
    "requested_wait ?req = 2000"
    by (simp_all add: example_request_def requested_wait_def)
  have v: "new_URL example_env (ascii ''https://example.com'') = Some (ascii ''https://example.com/'')"
    "page_goto example_env 1 (ascii ''https://example.com/'') = None"
    "page_waitForNetworkIdle example_env 1 = Fulfilled 5000"
    "page_documentComplete example_env 1 = Fulfilled 0"
    "page_waitForSelector example_env 1 (ascii ''h1'')
       = Some (Error (ascii ''Waiting for selector failed''))"
    "page_isPageLoaded example_env 1 = Inr True"
    "\<forall>p. page_query example_env p (ascii ''h1'') = Inr None"
    "page_content example_env 1 = Inr ?html"
    "turndown example_env (sanitizeHtml ?html) = Inr (ascii ''# Example Domain'')"
    "page_title example_env 1 = Inr (ascii ''Example Domain'')"
    "timer example_env 2000 = 2000"
    by (simp_all add: example_env_def)
  have r: "?req\<lparr>selector := None\<rparr> = example_request"
    by (simp add: example_request_def)
  have e: "result (get_markdown example_env example_request live)
       = Inr (Response 200 [(''url'', ascii ''https://example.com/''),
                            (''markdown'', ascii ''# Example Domain''),
                            (''title'', ascii ''Example Domain'')])"
    by (simp add: fetch_defs out_simps example_defs truthy_def opt_def ascii_def Let_def)
  show ?thesis
    using n b q v r e
      selector_fallback [where req = ?req and sel = "ascii ''h1''" and env = example_env
        and s = live and p = 1 and h = 1
        and e = "Error (ascii ''Waiting for selector failed'')"
        and f = "page_waitForSelector example_env"
        and raw = "ascii ''https://example.com''" and u = "ascii ''https://example.com/''"
        and tn = 5000 and td = 0 and html = ?html and md = "ascii ''# Example Domain''"
        and t = "ascii ''Example Domain''"]
    by (simp add: result_def)
qed

section \<open>The readiness wait\<close>

lemma readiness_fulfilled:
  "readiness env p w = Fulfilled t \<Longrightarrow>
     \<exists>tn td. page_waitForNetworkIdle env p = Fulfilled tn
       \<and> page_documentComplete env p = Fulfilled td
       \<and> t = max tn (max td (timer env w))"
  by (cases "page_waitForNetworkIdle env p"; cases "page_documentComplete env p")
     (auto simp add: readiness_def promise_all_def split: option.splits if_splits)

lemma wait_ready_success:
  "result (wait_ready env w s) = Inr () \<Longrightarrow>
     \<exists>p tn td. browserPage s = Some p
       \<and> trace (wait_ready env w s)
           = [AwaitAll [NetworkIdle p 60000 5000, DocumentComplete p, Delay w],
              Waited (max tn (max td (timer env w))), Sleep 2000, Waited (timer env 2000)]
       \<and> page_waitForNetworkIdle env p = Fulfilled tn
       \<and> page_documentComplete env p = Fulfilled td"
  by (auto simp add: wait_ready_def out_simps split: option.splits settled.splits
      dest: readiness_fulfilled)

lemma wait_ready_begin:
  "browserPage s = Some p \<Longrightarrow>
     \<exists>rest. trace (wait_ready env w s)
       = [AwaitAll [NetworkIdle p 60000 5000, DocumentComplete p, Delay w],
          Waited (settle_time (readiness env p w))] @ rest"
  by (simp add: wait_ready_def out_simps split: sum.splits settled.splits)

lemma navigate_run:
  "browserPage s = Some p \<Longrightarrow>
     navigate env u s
       = (opt (page_goto env p u), s,
          [SetDefaultNavigationTimeout p 60000, SetDefaultTimeout p 60000, Goto p u 60000])"
  by (simp add: navigate_def io_defs split: option.splits)

lemma goto_in_navigate:
  assumes g: "Goto p u' t \<in> set (trace (get_markdown env req s))"
  shows "\<exists>u. truthy (url req) \<and> sanitizeUrl env (the (url req)) = Inr u
           \<and> result (ensureLive env s) = Inr True
           \<and> result (ensure_page env (state_after (ensureLive env s))) = Inr ()
           \<and> Goto p u' t \<in> set (trace (navigate env u
                 (state_after (ensure_page env (state_after (ensureLive env s))))))"
proof -
  let ?s0 = "state_after (ensureLive env s)"
  let ?s1 = "state_after (ensure_page env ?s0)"
  let ?w = "requested_wait req"
  have nl: "\<not> lifecycle_action (Goto p u' t)"
    by (simp add: lifecycle_action_def)
  from fetch_reaches_page [OF g nl] obtain u where
    tu: "truthy (url req)" and u: "sanitizeUrl env (the (url req)) = Inr u" and
    live: "result (ensureLive env s) = Inr True" and
    pg: "result (ensure_page env ?s0) = Inr ()"
    by blast
  have gn: "Goto p u' t \<in> set (trace (navigate env u ?s1))"
  proof (cases "result (navigate env u ?s1)")
    case (Inl err)
    from fetch_trace_navigation_failed [OF tu u live pg Inl] g show ?thesis
      by (auto dest!: ensureLive_actions ensure_page_actions simp add: lifecycle_action_def)
  next
    case (Inr v)
    then have nav: "result (navigate env u ?s1) = Inr ()" by simp
    show ?thesis
    proof (cases "result (wait_ready env ?w ?s1)")
      case (Inl err)
      from fetch_trace_wait_failed [OF tu u live pg nav Inl] g show ?thesis
        by (auto dest!: ensureLive_actions ensure_page_actions wait_ready_actions
            simp add: lifecycle_action_def)
    next
      case (Inr v')
      then have rdy: "result (wait_ready env ?w ?s1) = Inr ()" by simp
      from fetch_trace_ready [OF tu u live pg nav rdy] g show ?thesis
        by (auto dest!: ensureLive_actions ensure_page_actions wait_ready_actions
            after_ready_actions simp add: lifecycle_action_def)
    qed
  qed
  with tu u live pg show ?thesis
    by blast
qed

lemma wait_follows_goto:
  assumes g: "Goto p u' t \<in> set (trace (get_markdown env req s))"
    and ok: "page_goto env p u' = None"
  shows "\<exists>pre post. trace (get_markdown env req s)
           = pre @ [Goto p u' 60000,
                    AwaitAll [NetworkIdle p 60000 5000, DocumentComplete p,
                              Delay (requested_wait req)],
                    Waited (settle_time (readiness env p (requested_wait req)))] @ post"
proof -
  let ?s0 = "state_after (ensureLive env s)"
  let ?s1 = "state_after (ensure_page env ?s0)"
  let ?w = "requested_wait req"
  let ?three = "[Goto p u' 60000,
                 AwaitAll [NetworkIdle p 60000 5000, DocumentComplete p, Delay ?w],
                 Waited (settle_time (readiness env p ?w))]"
  from goto_in_navigate [OF g] obtain u where
    tu: "truthy (url req)" and u: "sanitizeUrl env (the (url req)) = Inr u" and
    live: "result (ensureLive env s) = Inr True" and
    pg: "result (ensure_page env ?s0) = Inr ()" and
    gn: "Goto p u' t \<in> set (trace (navigate env u ?s1))"
    by blast
  from navigate_goto [OF gn] ok have bp: "browserPage ?s1 = Some p" and uu: "u' = u"
    and nav: "result (navigate env u ?s1) = Inr ()"
    by (simp_all add: opt_def)
  have nt: "trace (navigate env u ?s1)
      = [SetDefaultNavigationTimeout p 60000, SetDefaultTimeout p 60000, Goto p u' 60000]"
    by (simp add: navigate_run [OF bp] uu trace_def)
  from wait_ready_begin [OF bp] obtain rest where
    wt: "trace (wait_ready env ?w ?s1)
      = [AwaitAll [NetworkIdle p 60000 5000, DocumentComplete p, Delay ?w],
         Waited (settle_time (readiness env p ?w))] @ rest"
    by blast
  show ?thesis
  proof (cases "result (wait_ready env ?w ?s1)")
    case (Inl err)
    have "trace (get_markdown env req s)
        = (trace (ensureLive env s) @ trace (ensure_page env ?s0)
           @ [SetDefaultNavigationTimeout p 60000, SetDefaultTimeout p 60000])
          @ ?three @ (rest @ [ConsoleError (ascii ''Error fetching page:'') err])"
      by (simp add: fetch_trace_wait_failed [OF tu u live pg nav Inl] nt wt)
    then show ?thesis
      by blast
  next
    case (Inr v')
    then have rdy: "result (wait_ready env ?w ?s1) = Inr ()" by simp
    have "trace (get_markdown env req s)
        = (trace (ensureLive env s) @ trace (ensure_page env ?s0)
           @ [SetDefaultNavigationTimeout p 60000, SetDefaultTimeout p 60000])
          @ ?three
          @ (rest @ trace (try_catch
                    (bnd (wait_selector env (selector req)) (\<lambda>_.
                     bnd (check_loaded env) (\<lambda>_.
                     bnd (get_html env (selector req)) (\<lambda>html.
                     convert env u html))))
                    get_markdown_catch ?s1))"
      by (simp add: fetch_trace_ready [OF tu u live pg nav rdy] nt wt)
    then show ?thesis
      by blast
  qed
qed

lemma extraction_after_wait:
  assumes ex: "\<exists>a\<in>set (trace (get_markdown env req s)). is_extraction a"
  shows "\<exists>pre post p u tn td.
           trace (get_markdown env req s)
             = pre @ [Goto p u 60000,
                      AwaitAll [NetworkIdle p 60000 5000, DocumentComplete p,
                                Delay (requested_wait req)],
                      Waited (max tn (max td (timer env (requested_wait req)))),
                      Sleep 2000, Waited (timer env 2000)] @ post
           \<and> (\<forall>a\<in>set pre. \<not> is_extraction a)
           \<and> page_goto env p u = None
           \<and> page_waitForNetworkIdle env p = Fulfilled tn
           \<and> page_documentComplete env p = Fulfilled td"
proof -
  let ?s0 = "state_after (ensureLive env s)"
  let ?s1 = "state_after (ensure_page env ?s0)"
  let ?w = "requested_wait req"
  from ex obtain a where a: "a \<in> set (trace (get_markdown env req s))" and e: "is_extraction a"
    by blast
  from e have nl: "\<not> lifecycle_action a"
    using lifecycle_not_extraction by blast
  from fetch_reaches_page [OF a nl] obtain u where
    tu: "truthy (url req)" and u: "sanitizeUrl env (the (url req)) = Inr u" and
    live: "result (ensureLive env s) = Inr True" and
    pg: "result (ensure_page env ?s0) = Inr ()"
    by blast
  note before = no_extraction_before(1) [of env s] no_extraction_before(2) [of env ?s0]
    no_extraction_before(3) [of env u ?s1] no_extraction_before(4) [of env ?w ?s1]
  have nav: "result (navigate env u ?s1) = Inr ()"
  proof (cases "result (navigate env u ?s1)")
    case (Inl err)
    from fetch_trace_navigation_failed [OF tu u live pg Inl] a e before have False
      by auto
    then show ?thesis ..
  next
    case (Inr v)
    then show ?thesis by simp
  qed
  have rdy: "result (wait_ready env ?w ?s1) = Inr ()"
  proof (cases "result (wait_ready env ?w ?s1)")
    case (Inl err)
    from fetch_trace_wait_failed [OF tu u live pg nav Inl] a e before have False
      by auto
    then show ?thesis ..
  next
    case (Inr v)
    then show ?thesis by simp
  qed
  from wait_ready_success [OF rdy] obtain p tn td where
    bp: "browserPage ?s1 = Some p" and
    wt: "trace (wait_ready env ?w ?s1)
          = [AwaitAll [NetworkIdle p 60000 5000, DocumentComplete p, Delay ?w],
             Waited (max tn (max td (timer env ?w))), Sleep 2000, Waited (timer env 2000)]"
    and f: "page_waitForNetworkIdle env p = Fulfilled tn"
      "page_documentComplete env p = Fulfilled td"
    by blast
  have nt: "trace (navigate env u ?s1)
      = [SetDefaultNavigationTimeout p 60000, SetDefaultTimeout p 60000, Goto p u 60000]"
    by (simp add: navigate_run [OF bp] trace_def)
  have ok: "page_goto env p u = None"
    using nav by (simp add: navigate_run [OF bp] result_def opt_def split: option.splits)
  let ?pre = "trace (ensureLive env s) @ trace (ensure_page env ?s0)
           @ [SetDefaultNavigationTimeout p 60000, SetDefaultTimeout p 60000]"
  have tr: "trace (get_markdown env req s)
        = ?pre
          @ [Goto p u 60000,
             AwaitAll [NetworkIdle p 60000 5000, DocumentComplete p, Delay ?w],
             Waited (max tn (max td (timer env ?w))), Sleep 2000, Waited (timer env 2000)]
          @ trace (try_catch
                    (bnd (wait_selector env (selector req)) (\<lambda>_.
                     bnd (check_loaded env) (\<lambda>_.
                     bnd (get_html env (selector req)) (\<lambda>html.
                     convert env u html))))
                    get_markdown_catch ?s1)"
    by (simp add: fetch_trace_ready [OF tu u live pg nav rdy] nt wt)
  have np: "\<forall>a\<in>set ?pre. \<not> is_extraction a"
    using before(1,2) by auto
  from tr np ok f show ?thesis
    by blast
qed

text \<open>
  C2: in every fetch, a navigation that succeeded is followed at once by one joint wait
  (\<^verbatim>\<open>Promise.all\<close>) on exactly three members: network idle, document complete, and a
  timer of \<^verbatim>\<open>waitTime\<close> milliseconds (2000 when the request gives none), and the fetch
  is suspended until that join settles: the timer is a member whatever the other two do.
  Markup is retrieved only after that wait, and only when both page signals were
  fulfilled; the fetch has then been suspended until the latest of the three times, so
  never less than the timer takes (and then for the further fixed delay of 2000 ms).
\<close>

theorem readiness_wait_all_three:
  "(Goto p u t \<in> set (trace (get_markdown env req s)) \<and> page_goto env p u = None \<longrightarrow>
      (\<exists>pre post. trace (get_markdown env req s)
         = pre @ [Goto p u 60000,
                  AwaitAll [NetworkIdle p 60000 5000, DocumentComplete p,
                            Delay (requested_wait req)],
                  Waited (settle_time (promise_all
                    [page_waitForNetworkIdle env p, page_documentComplete env p,
                     Fulfilled (timer env (requested_wait req))]))] @ post))
   \<and> ((\<exists>a\<in>set (trace (get_markdown env req s)). is_extraction a) \<longrightarrow>
      (\<exists>pre post p' u' tn td.
         trace (get_markdown env req s)
           = pre @ [Goto p' u' 60000,
                    AwaitAll [NetworkIdle p' 60000 5000, DocumentComplete p',
                              Delay (requested_wait req)],
                    Waited (max tn (max td (timer env (requested_wait req)))),
                    Sleep 2000, Waited (timer env 2000)] @ post
         \<and> (\<forall>a\<in>set pre. \<not> is_extraction a)
         \<and> page_goto env p' u' = None
         \<and> page_waitForNetworkIdle env p' = Fulfilled tn
         \<and> page_documentComplete env p' = Fulfilled td))"
  using wait_follows_goto [of p u t env req s] extraction_after_wait [of env req s]
  unfolding readiness_def
  by blast

text \<open>
  The witness: a request for a wait of 8000 ms on a page whose network is idle after
  5000 ms and whose document is complete at once; the fetch is suspended 8000 ms at the
  joint wait.
\<close>

theorem readiness_wait_all_three_witness:
  "trace (get_markdown example_env (example_request\<lparr>waitTime := Some 8000\<rparr>) live)
     = [SetDefaultNavigationTimeout 1 60000, SetDefaultTimeout 1 60000,
        Goto 1 (ascii ''https://example.com/'') 60000,
        AwaitAll [NetworkIdle 1 60000 5000, DocumentComplete 1, Delay 8000],
        Waited 8000, Sleep 2000, Waited 2000,
        IsPageLoaded 1, Content 1,
        Turndown (sanitizeHtml (ascii ''<html><h1>Example Domain</h1></html>'')), Title 1]
   \<and> page_goto example_env 1 (ascii ''https://example.com/'') = None
   \<and> (\<exists>a\<in>set (trace (get_markdown example_env (example_request\<lparr>waitTime := Some 8000\<rparr>) live)).
         is_extraction a)
   \<and> (\<exists>pre post. trace (get_markdown example_env (example_request\<lparr>waitTime := Some 8000\<rparr>) live)
         = pre @ [Goto 1 (ascii ''https://example.com/'') 60000,
                  AwaitAll [NetworkIdle 1 60000 5000, DocumentComplete 1, Delay 8000],
                  Waited (settle_time (promise_all
                    [page_waitForNetworkIdle example_env 1, page_documentComplete example_env 1,
                     Fulfilled (timer example_env 8000)]))] @ post)
   \<and> (\<exists>pre post p' u' tn td.
         trace (get_markdown example_env (example_request\<lparr>waitTime := Some 8000\<rparr>) live)
           = pre @ [Goto p' u' 60000,
                    AwaitAll [NetworkIdle p' 60000 5000, DocumentComplete p', Delay 8000],
                    Waited (max tn (max td (timer example_env 8000))),
                    Sleep 2000, Waited (timer example_env 2000)] @ post
         \<and> (\<forall>a\<in>set pre. \<not> is_extraction a)
         \<and> page_goto example_env p' u' = None
         \<and> page_waitForNetworkIdle example_env p' = Fulfilled tn
         \<and> page_documentComplete example_env p' = Fulfilled td)"
proof -
  let ?req = "example_request\<lparr>waitTime := Some 8000\<rparr>"
  let ?tr = "trace (get_markdown example_env ?req live)"
  have tr: "?tr
     = [SetDefaultNavigationTimeout 1 60000, SetDefaultTimeout 1 60000,
        Goto 1 (ascii ''https://example.com/'') 60000,
        AwaitAll [NetworkIdle 1 60000 5000, DocumentComplete 1, Delay 8000],
        Waited 8000, Sleep 2000, Waited 2000,
        IsPageLoaded 1, Content 1,
        Turndown (sanitizeHtml (ascii ''<html><h1>Example Domain</h1></html>'')), Title 1]"
    by (simp add: fetch_defs out_simps example_defs truthy_def opt_def ascii_def Let_def
        sanitizeHtml_def)
  have g: "Goto 1 (ascii ''https://example.com/'') 60000 \<in> set ?tr"
    by (simp add: tr)
  have n: "page_goto example_env 1 (ascii ''https://example.com/'') = None"
    by (simp add: example_env_def)
  have c: "Content 1 \<in> set ?tr"
    by (simp add: tr)
  have x: "\<exists>a\<in>set ?tr. is_extraction a"
    using c by (rule bexI [rotated]) simp
  have w: "requested_wait ?req = 8000"
    by (simp add: requested_wait_def example_request_def)
  have "(\<exists>pre post. ?tr
         = pre @ [Goto 1 (ascii ''https://example.com/'') 60000,
                  AwaitAll [NetworkIdle 1 60000 5000, DocumentComplete 1,
                            Delay (requested_wait ?req)],
                  Waited (settle_time (promise_all
                    [page_waitForNetworkIdle example_env 1, page_documentComplete example_env 1,
                     Fulfilled (timer example_env (requested_wait ?req))]))] @ post)
   \<and> (\<exists>pre post p' u' tn td.
         ?tr
           = pre @ [Goto p' u' 60000,
                    AwaitAll [NetworkIdle p' 60000 5000, DocumentComplete p',
                              Delay (requested_wait ?req)],
                    Waited (max tn (max td (timer example_env (requested_wait ?req)))),
                    Sleep 2000, Waited (timer example_env 2000)] @ post
         \<and> (\<forall>a\<in>set pre. \<not> is_extraction a)
         \<and> page_goto example_env p' u' = None
         \<and> page_waitForNetworkIdle example_env p' = Fulfilled tn
         \<and> page_documentComplete example_env p' = Fulfilled td)"
    using g n x
      readiness_wait_all_three [where p = 1 and u = "ascii ''https://example.com/''"
        and t = 60000 and env = example_env and req = ?req and s = live]
    by blast
  then show ?thesis
    unfolding w using tr n x by blast
qed

section \<open>Concurrent and sequential callers of \<open>ensureLive\<close>\<close>

lemmas interleaving_defs = run_def resume_def caught_def launches_def fresh_def
  two_callers_def

text \<open>
  A caller run alone, through its six segments, does what \<open>ensureLive\<close> run to
  completion does.
\<close>

lemmas alone_defs = run_def resume_def caught_def ensureLive_def init_defs io_defs out_defs

lemma caller_alone:
  "run (\<lambda>_. env) [0, 0, 0, 0, 0, 0] \<lparr>vars = s, callers = [AtCheck], performed = []\<rparr>
     = \<lparr>vars = state_after (ensureLive env s),
        callers = [Resolved (result (ensureLive env s) = Inr True)],
        performed = trace (ensureLive env s)\<rparr>"
proof (cases "browser s")
  case (Some h)
  then show ?thesis
    by (simp add: alone_defs)
next
  case absent: None
  show ?thesis
  proof (cases "fs_mkdirSync env")
    case (Some e)
    with absent show ?thesis
      by (simp add: alone_defs)
  next
    case mkdir: None
    show ?thesis
    proof (cases "puppeteer_launch env")
      case (Inl e)
      with absent mkdir show ?thesis
        by (simp add: alone_defs)
    next
      case launch: (Inr h)
      show ?thesis
      proof (cases "browser_newPage env h")
        case (Inl e)
        with absent mkdir launch show ?thesis
          by (simp add: alone_defs)
      next
        case newPage: (Inr p)
        show ?thesis
        proof (cases "page_setViewport env p")
          case (Some e)
          with absent mkdir launch newPage show ?thesis
            by (simp add: alone_defs)
        next
          case viewport: None
          show ?thesis
          proof (cases "page_setUserAgent env p")
            case (Some e)
            with absent mkdir launch newPage viewport show ?thesis
              by (simp add: alone_defs)
          next
            case agent: None
            show ?thesis
            proof (cases "page_evaluateOnNewDocument env p")
              case (Some e)
              with absent mkdir launch newPage viewport agent show ?thesis
                by (simp add: alone_defs)
            next
              case None
              with absent mkdir launch newPage viewport agent show ?thesis
                by (simp add: alone_defs)
            qed
          qed
        qed
      qed
    qed
  qed
qed

text \<open>
  C5, as stated, fails: two callers resumed alternately while the browser is absent
  (the second checks before the first caller's launch has settled) make two launches.
\<close>

theorem concurrent_ensureLive_counterexample:
  "launches (performed (run two_callers [0, 1, 0, 0, 0, 0, 0, 1, 1, 1, 1, 1] (fresh 2))) = 2
   \<and> callers (run two_callers [0, 1, 0, 0, 0, 0, 0, 1, 1, 1, 1, 1] (fresh 2))
       = [Resolved True, Resolved True]"
  by (simp add: interleaving_defs io_defs initBrowser_catch_def example_defs numeral_2_eq_2)

text \<open>
  More generally, every caller that is resumed at its check while the browser variable is
  unset starts a launch of its own, whatever the other callers are doing.
\<close>

lemma unset_check_launches:
  assumes "i < length (callers w)" "callers w ! i = AtCheck" "browser (vars w) = None"
    and "fs_mkdirSync (envs i) = None"
  shows "callers (resume envs i w) = (callers w)[i := AwaitLaunch]"
    and "performed (resume envs i w) = performed w @ [MkdirTemp, Launch]"
    and "launches (performed (resume envs i w)) = Suc (launches (performed w))"
  using assms by (simp_all add: resume_def caught_def launches_def io_defs)

lemma ensureLive_when_live:
  "browser s \<noteq> None \<Longrightarrow> ensureLive env s = (Inr True, s, [])"
  by (auto simp add: ensureLive_def io_defs)

lemma ensureLive_seq_when_live:
  "browser s \<noteq> None \<Longrightarrow>
     ensureLive_seq envs s = (Inr (replicate (length envs) True), s, [])"
  by (induction envs) (simp_all add: ensureLive_when_live io_defs)

lemma initBrowser_one_launch:
  "result (initBrowser env s) = Inr True \<Longrightarrow> launches (trace (initBrowser env s)) = 1"
  by (auto simp add: init_defs out_simps launches_def split: sum.splits option.splits if_splits)

text \<open>
  C5, amended: when \<open>ensureLive\<close> is called N times one after another (each call run
  to completion before the next begins) while the browser is absent, and the launch
  sequence of the first call succeeds, exactly one browser launch is executed and all N
  callers find the browser live. Calls that overlap are not serialized: each caller
  that checks while the browser variable is still unset makes its own launch.
\<close>

theorem sequential_ensureLive_one_launch:
  "browser s = None \<Longrightarrow> result (initBrowser env s) = Inr True \<Longrightarrow>
     result (ensureLive_seq (env # envs) s) = Inr (replicate (Suc (length envs)) True)
     \<and> launches (trace (ensureLive_seq (env # envs) s)) = 1
     \<and> browser (state_after (ensureLive_seq (env # envs) s)) \<noteq> None"
proof -
  assume b: "browser s = None" and ok: "result (initBrowser env s) = Inr True"
  obtain s1 t1 where i: "initBrowser env s = (Inr True, s1, t1)"
    using ok by (cases "initBrowser env s") (auto simp add: out_defs)
  from b i have e: "ensureLive env s = (Inr True, s1, t1)"
    by (simp add: ensureLive_def io_defs)
  from i initBrowser_state [of env s] have l: "browser s1 \<noteq> None"
    by (auto simp add: out_defs)
  from i initBrowser_one_launch [OF ok] have n: "launches t1 = 1"
    by (simp add: out_defs)
  from e ensureLive_seq_when_live [OF l, of envs]
  have "ensureLive_seq (env # envs) s = (Inr (True # replicate (length envs) True), s1, t1)"
    by (simp add: bnd_def ret_def)
  with l n show ?thesis
    by (simp add: out_defs)
qed

theorem sequential_ensureLive_one_launch_witness:
  "browser absent = None
   \<and> result (initBrowser example_env absent) = Inr True
   \<and> result (ensureLive_seq [example_env, failing_env, example_env] absent)
       = Inr [True, True, True]
   \<and> launches (trace (ensureLive_seq [example_env, failing_env, example_env] absent)) = 1"
proof -
  have b: "browser absent = None"
    by (simp add: absent_def)
  have ok: "result (initBrowser example_env absent) = Inr True"
    by (simp add: init_defs out_simps example_defs opt_def)
  show ?thesis
    using b ok sequential_ensureLive_one_launch [OF b ok, of "[failing_env, example_env]"]
    by (simp add: numeral_3_eq_3)
qed

end
